theory Spec2Isabelle
  imports Complex_Main "HOL-Library.Word"
begin

section \<open>The unlock indicator of i3lock (unlock\_indicator.c)\<close>

text \<open>
  The file under verification renders the lock screen: a ring that reports the state of
  the password input and of the authentication, a clock, and the composition of both on
  every monitor. C doubles are read as reals, except where the code turns one into an
  integer with \<open>ceil\<close>: the scaling factor and the products under \<open>ceil\<close> are
  rounded as IEEE 754 binary64 arithmetic rounds them. C ints that hold pixel positions
  are unbounded integers (the values are 16-bit coordinates and a few hundred pixels of
  widget size, far from the 32-bit limits), and the unsigned arithmetic on
  \<open>last_resolution\<close> is on 32-bit words, whose wrap-around the code relies on.
\<close>

subsection \<open>The state enumerations\<close>

datatype unlock_state_t =
    STATE_STARTED
  | STATE_KEY_PRESSED
  | STATE_KEY_ACTIVE
  | STATE_BACKSPACE_ACTIVE
  | STATE_NOTHING_TO_DELETE

datatype auth_state_t =
    STATE_AUTH_IDLE
  | STATE_AUTH_VERIFY
  | STATE_AUTH_LOCK
  | STATE_AUTH_WRONG
  | STATE_I3LOCK_LOCK_FAILED

text \<open>
  Modelled from the spec: the header unlock\_indicator.h, which declares the two
  enumerations and so fixes the integer value of each enumerator, is not among the
  sources. The source compares the states by value (\<open>unlock_state >= STATE_KEY_PRESSED\<close>,
  \<open>auth_state > STATE_AUTH_IDLE\<close>); the spec says that \<open>Started\<close> is the default state
  in which the indicator is not yet shown and \<open>Idle\<close> the state without authentication
  activity, and that every other state shows the ring. The values below are the
  enumerators counted from 0, \<open>STATE_STARTED\<close> and \<open>STATE_AUTH_IDLE\<close> first. The
  source agrees with them where it can be seen: it handles \<open>STATE_NOTHING_TO_DELETE\<close>
  under \<open>STATE_AUTH_IDLE\<close> inside the block that the comparison guards, which that
  state could not reach were its value below \<open>STATE_KEY_PRESSED\<close>.
\<close>

fun unlock_state_value :: "unlock_state_t \<Rightarrow> int" where
  "unlock_state_value STATE_STARTED = 0"
| "unlock_state_value STATE_KEY_PRESSED = 1"
| "unlock_state_value STATE_KEY_ACTIVE = 2"
| "unlock_state_value STATE_BACKSPACE_ACTIVE = 3"
| "unlock_state_value STATE_NOTHING_TO_DELETE = 4"

fun auth_state_value :: "auth_state_t \<Rightarrow> int" where
  "auth_state_value STATE_AUTH_IDLE = 0"
| "auth_state_value STATE_AUTH_VERIFY = 1"
| "auth_state_value STATE_AUTH_LOCK = 2"
| "auth_state_value STATE_AUTH_WRONG = 3"
| "auth_state_value STATE_I3LOCK_LOCK_FAILED = 4"

subsection \<open>Constants and the colour scheme\<close>

definition BUTTON_RADIUS :: int where "BUTTON_RADIUS = 90"
definition BUTTON_SPACE :: int where "BUTTON_SPACE = BUTTON_RADIUS + 5"
definition BUTTON_CENTER :: int where "BUTTON_CENTER = BUTTON_RADIUS + 5"
definition BUTTON_DIAMETER :: int where "BUTTON_DIAMETER = 2 * BUTTON_SPACE"

definition CLOCK_WIDTH :: int where "CLOCK_WIDTH = 240"
definition CLOCK_HEIGHT :: int where "CLOCK_HEIGHT = 84"
definition CLOCK_MARGIN :: int where "CLOCK_MARGIN = 24"

definition nord0 :: "int list" where "nord0 = [0x2e, 0x34, 0x40]"
definition nord1 :: "int list" where "nord1 = [0x3b, 0x42, 0x52]"
definition nord2 :: "int list" where "nord2 = [0x43, 0x4c, 0x5e]"
definition nord3 :: "int list" where "nord3 = [0x4c, 0x56, 0x6a]"
definition nord4 :: "int list" where "nord4 = [0xd8, 0xde, 0xe9]"
definition nord5 :: "int list" where "nord5 = [0xe5, 0xe9, 0xf0]"
definition nord6 :: "int list" where "nord6 = [0xec, 0xef, 0xf4]"
definition nord7 :: "int list" where "nord7 = [0x8f, 0xbc, 0xbb]"
definition nord8 :: "int list" where "nord8 = [0x88, 0xc0, 0xd0]"
definition nord9 :: "int list" where "nord9 = [0x81, 0xa1, 0xc1]"
definition nord10 :: "int list" where "nord10 = [0x5e, 0x81, 0xac]"
definition nord11 :: "int list" where "nord11 = [0xbf, 0x61, 0x6a]"
definition nord12 :: "int list" where "nord12 = [0xd0, 0x87, 0x70]"
definition nord13 :: "int list" where "nord13 = [0xeb, 0xcb, 0x8b]"
definition nord14 :: "int list" where "nord14 = [0xa3, 0xbe, 0x8c]"
definition nord15 :: "int list" where "nord15 = [0xb4, 0x8e, 0xad]"

type_synonym rgb = "real \<times> real \<times> real"

text \<open>The macro \<open>NORD(n)\<close>: the three components of \<open>nord##n\<close>, each divided by 255.0.\<close>

definition NORD :: "int list \<Rightarrow> rgb" where
  "NORD n = (real_of_int (n ! 0) / 255, real_of_int (n ! 1) / 255, real_of_int (n ! 2) / 255)"

subsection \<open>A model of the cairo drawing context\<close>

text \<open>
  cairo is an external library. A context is modelled by its graphics state, its current
  path and point, and the list of layers painted so far on its target surface, in
  painting order. A layer records what was painted (a fill or a stroke of a path, a
  text, a paint of the whole surface) together with the graphics state in force.
  An image surface starts fully transparent, that is with no layer.
\<close>

datatype surface_name = OUTPUT | CLOCK_OUTPUT | IMG

datatype extend_t = CAIRO_EXTEND_NONE | CAIRO_EXTEND_REPEAT

datatype source_t =
    SourceRGB real real real
  | SourceSurface surface_name real real extend_t

datatype path_elem =
    MoveTo real real
  | LineTo real real
  | Arc real real real real real
  | Rectangle real real real real
  | ClosePath

datatype paint_op = Fill | Stroke | Paint | ShowText string real real

record gstate =
  gs_source :: source_t
  gs_line_width :: real
  gs_font_face :: string
  gs_font_size :: real
  gs_scale :: "real \<times> real"

record layer =
  l_gstate :: gstate
  l_path :: "path_elem list"
  l_op :: paint_op

record text_extents_t =
  x_bearing :: real
  y_bearing :: real
  ext_width :: real
  ext_height :: real
  x_advance :: real
  y_advance :: real

text \<open>The font metrics are the font backend's: a parameter of the model.\<close>

type_synonym font_metrics = "string \<Rightarrow> real \<Rightarrow> string \<Rightarrow> text_extents_t"

record cairo_t =
  c_gstate :: gstate
  c_path :: "path_elem list"
  c_point :: "(real \<times> real) option"
  c_start :: "(real \<times> real) option"
  c_target :: "layer list"

text \<open>
  \<open>c_point\<close> is the current point, \<open>c_start\<close> the first point of the current
  sub-path. A new context has an opaque black source, line width 2, font size 10, the
  identity transformation and an empty path.
\<close>

definition cairo_create :: "layer list \<Rightarrow> cairo_t" where
  "cairo_create surface =
     \<lparr>c_gstate = \<lparr>gs_source = SourceRGB 0 0 0, gs_line_width = 2, gs_font_face = [],
                   gs_font_size = 10, gs_scale = (1, 1)\<rparr>,
      c_path = [], c_point = None, c_start = None, c_target = surface\<rparr>"

definition cairo_scale :: "real \<Rightarrow> real \<Rightarrow> cairo_t \<Rightarrow> cairo_t" where
  "cairo_scale sx sy c =
     c\<lparr>c_gstate := (c_gstate c)\<lparr>gs_scale :=
         (fst (gs_scale (c_gstate c)) * sx, snd (gs_scale (c_gstate c)) * sy)\<rparr>\<rparr>"

definition cairo_set_line_width :: "real \<Rightarrow> cairo_t \<Rightarrow> cairo_t" where
  "cairo_set_line_width w c = c\<lparr>c_gstate := (c_gstate c)\<lparr>gs_line_width := w\<rparr>\<rparr>"

definition cairo_set_source_rgb :: "rgb \<Rightarrow> cairo_t \<Rightarrow> cairo_t" where
  "cairo_set_source_rgb col c =
     (case col of (r, g, b) \<Rightarrow> c\<lparr>c_gstate := (c_gstate c)\<lparr>gs_source := SourceRGB r g b\<rparr>\<rparr>)"

definition cairo_set_source_surface :: "surface_name \<Rightarrow> real \<Rightarrow> real \<Rightarrow> cairo_t \<Rightarrow> cairo_t" where
  "cairo_set_source_surface s x y c =
     c\<lparr>c_gstate := (c_gstate c)\<lparr>gs_source := SourceSurface s x y CAIRO_EXTEND_NONE\<rparr>\<rparr>"

text \<open>
  \<open>cairo_pattern_set_extend\<close> is called on the pattern after it became the source; the
  context holds the pattern by reference, so the source changes with it.
\<close>

definition cairo_pattern_set_extend :: "extend_t \<Rightarrow> cairo_t \<Rightarrow> cairo_t" where
  "cairo_pattern_set_extend e c =
     (case gs_source (c_gstate c) of
        SourceSurface s x y _ \<Rightarrow> c\<lparr>c_gstate := (c_gstate c)\<lparr>gs_source := SourceSurface s x y e\<rparr>\<rparr>
      | SourceRGB _ _ _ \<Rightarrow> c)"

definition cairo_select_font_face :: "string \<Rightarrow> cairo_t \<Rightarrow> cairo_t" where
  "cairo_select_font_face f c = c\<lparr>c_gstate := (c_gstate c)\<lparr>gs_font_face := f\<rparr>\<rparr>"

definition cairo_set_font_size :: "real \<Rightarrow> cairo_t \<Rightarrow> cairo_t" where
  "cairo_set_font_size s c = c\<lparr>c_gstate := (c_gstate c)\<lparr>gs_font_size := s\<rparr>\<rparr>"

text \<open>An arc is joined to the current point by a line, when there is a current point.\<close>

definition cairo_arc :: "real \<Rightarrow> real \<Rightarrow> real \<Rightarrow> real \<Rightarrow> real \<Rightarrow> cairo_t \<Rightarrow> cairo_t" where
  "cairo_arc xc yc r a1 a2 c =
     (let first = (xc + r * cos a1, yc + r * sin a1) in
      c\<lparr>c_path := c_path c
            @ (case c_point c of None \<Rightarrow> [] | Some _ \<Rightarrow> [LineTo (fst first) (snd first)])
            @ [Arc xc yc r a1 a2],
        c_start := (case c_point c of None \<Rightarrow> Some first | Some _ \<Rightarrow> c_start c),
        c_point := Some (xc + r * cos a2, yc + r * sin a2)\<rparr>)"

definition cairo_rectangle :: "real \<Rightarrow> real \<Rightarrow> real \<Rightarrow> real \<Rightarrow> cairo_t \<Rightarrow> cairo_t" where
  "cairo_rectangle x y w h c =
     c\<lparr>c_path := c_path c @ [Rectangle x y w h], c_start := Some (x, y), c_point := Some (x, y)\<rparr>"

definition cairo_move_to :: "real \<Rightarrow> real \<Rightarrow> cairo_t \<Rightarrow> cairo_t" where
  "cairo_move_to x y c =
     c\<lparr>c_path := c_path c @ [MoveTo x y], c_start := Some (x, y), c_point := Some (x, y)\<rparr>"

text \<open>A relative line needs a current point; without one cairo reports an error and adds nothing.\<close>

definition cairo_rel_line_to :: "real \<Rightarrow> real \<Rightarrow> cairo_t \<Rightarrow> cairo_t" where
  "cairo_rel_line_to dx dy c =
     (case c_point c of
        None \<Rightarrow> c
      | Some (x, y) \<Rightarrow> c\<lparr>c_path := c_path c @ [LineTo (x + dx) (y + dy)],
                         c_point := Some (x + dx, y + dy)\<rparr>)"

definition cairo_close_path :: "cairo_t \<Rightarrow> cairo_t" where
  "cairo_close_path c =
     (case c_point c of
        None \<Rightarrow> c
      | Some _ \<Rightarrow> c\<lparr>c_path := c_path c @ [ClosePath], c_point := c_start c\<rparr>)"

definition cairo_new_sub_path :: "cairo_t \<Rightarrow> cairo_t" where
  "cairo_new_sub_path c = c\<lparr>c_point := None, c_start := None\<rparr>"

definition paint_layer :: "paint_op \<Rightarrow> cairo_t \<Rightarrow> cairo_t" where
  "paint_layer op c =
     c\<lparr>c_target := c_target c @ [\<lparr>l_gstate = c_gstate c, l_path = c_path c, l_op = op\<rparr>]\<rparr>"

definition cairo_new_path :: "cairo_t \<Rightarrow> cairo_t" where
  "cairo_new_path c = c\<lparr>c_path := [], c_point := None, c_start := None\<rparr>"

definition cairo_fill_preserve :: "cairo_t \<Rightarrow> cairo_t" where
  "cairo_fill_preserve c = paint_layer Fill c"

definition cairo_fill :: "cairo_t \<Rightarrow> cairo_t" where
  "cairo_fill c = cairo_new_path (paint_layer Fill c)"

definition cairo_stroke :: "cairo_t \<Rightarrow> cairo_t" where
  "cairo_stroke c = cairo_new_path (paint_layer Stroke c)"

text \<open>\<open>cairo_paint\<close> paints the source over the whole surface, whatever the path.\<close>

definition cairo_paint :: "cairo_t \<Rightarrow> cairo_t" where
  "cairo_paint c =
     c\<lparr>c_target := c_target c @ [\<lparr>l_gstate = c_gstate c, l_path = [], l_op = Paint\<rparr>]\<rparr>"

definition cairo_text_extents :: "font_metrics \<Rightarrow> cairo_t \<Rightarrow> string \<Rightarrow> text_extents_t" where
  "cairo_text_extents fm c s = fm (gs_font_face (c_gstate c)) (gs_font_size (c_gstate c)) s"

text \<open>
  The text is drawn at the current point (at the origin without one); the current point
  then moves by the advance of the text. An empty text draws and moves nothing.
\<close>

definition cairo_show_text :: "font_metrics \<Rightarrow> string \<Rightarrow> cairo_t \<Rightarrow> cairo_t" where
  "cairo_show_text fm s c =
     (if s = [] then c
      else let (x, y) = (case c_point c of None \<Rightarrow> (0, 0) | Some p \<Rightarrow> p);
               e = cairo_text_extents fm c s;
               c = c\<lparr>c_target := c_target c
                      @ [\<lparr>l_gstate = c_gstate c, l_path = [], l_op = ShowText s x y\<rparr>]\<rparr>
           in cairo_move_to (x + x_advance e) (y + y_advance e) c)"

subsection \<open>C arithmetic and library functions\<close>

text \<open>Integer division of C truncates towards zero; a cast from double to int does too.\<close>

definition c_div :: "int \<Rightarrow> int \<Rightarrow> int" where
  "c_div a b = sgn a * sgn b * (\<bar>a\<bar> div \<bar>b\<bar>)"

definition c_mod :: "int \<Rightarrow> int \<Rightarrow> int" where
  "c_mod a b = a - b * c_div a b"

definition int_of_double :: "real \<Rightarrow> int" where
  "int_of_double r = (if 0 \<le> r then \<lfloor>r\<rfloor> else \<lceil>r\<rceil>)"

text \<open>
  The arithmetic of doubles (IEEE 754 binary64, rounding to nearest, ties to even): the
  result of a division or a multiplication is the exact result rounded to 53
  significant bits. \<open>double_exponent x\<close> is the exponent \<open>e\<close> of a positive \<open>x\<close>, with
  \<open>2^e \<le> x < 2^(e+1)\<close>, not below -1022 (where the subnormal numbers begin) and
  not above 1023 (overflow to infinity is not modelled).
\<close>

definition pow2 :: "int \<Rightarrow> real" where
  "pow2 e = (if 0 \<le> e then 2 ^ nat e else 1 / 2 ^ nat (- e))"

fun exponent_up :: "nat \<Rightarrow> real \<Rightarrow> int \<Rightarrow> int" where
  "exponent_up 0 x e = e"
| "exponent_up (Suc n) x e = (if pow2 (e + 1) \<le> x then exponent_up n x (e + 1) else e)"

fun exponent_down :: "nat \<Rightarrow> real \<Rightarrow> int \<Rightarrow> int" where
  "exponent_down 0 x e = e"
| "exponent_down (Suc n) x e = (if pow2 e \<le> x then e else exponent_down n x (e - 1))"

definition double_exponent :: "real \<Rightarrow> int" where
  "double_exponent x = (if 1 \<le> x then exponent_up 1023 x 0 else exponent_down 1021 x (- 1))"

definition round_to_even :: "real \<Rightarrow> int" where
  "round_to_even y =
     (if y - real_of_int \<lfloor>y\<rfloor> < 1 / 2 then \<lfloor>y\<rfloor>
      else if 1 / 2 < y - real_of_int \<lfloor>y\<rfloor> then \<lfloor>y\<rfloor> + 1
      else if even \<lfloor>y\<rfloor> then \<lfloor>y\<rfloor> else \<lfloor>y\<rfloor> + 1)"

definition round_double :: "real \<Rightarrow> real" where
  "round_double x =
     (if x = 0 then 0
      else sgn x * real_of_int (round_to_even (\<bar>x\<bar> / pow2 (double_exponent \<bar>x\<bar> - 52)))
             * pow2 (double_exponent \<bar>x\<bar> - 52))"

definition digit_char :: "nat \<Rightarrow> char" where
  "digit_char d = char_of (48 + d)"

fun digits :: "nat \<Rightarrow> string" where
  "digits n = (if n < 10 then [digit_char n] else digits (n div 10) @ [digit_char (n mod 10)])"

declare digits.simps [simp del]

text \<open>The conversion \<open>%d\<close> of printf, and \<open>snprintf(buf, n, "%d", i)\<close>, which keeps at
  most \<open>n - 1\<close> characters before the terminator.\<close>

definition format_d :: "int \<Rightarrow> string" where
  "format_d i = (if i < 0 then CHR ''-'' # digits (nat (- i)) else digits (nat i))"

definition snprintf_d :: "nat \<Rightarrow> int \<Rightarrow> string" where
  "snprintf_d n i = take (n - 1) (format_d i)"

definition hex_digit :: "char \<Rightarrow> int option" where
  "hex_digit c =
     (let n = of_char c :: nat in
      if 48 \<le> n \<and> n \<le> 57 then Some (int n - 48)
      else if 97 \<le> n \<and> n \<le> 102 then Some (int n - 87)
      else if 65 \<le> n \<and> n \<le> 70 then Some (int n - 55)
      else None)"

fun strtol16_from :: "int \<Rightarrow> string \<Rightarrow> int" where
  "strtol16_from acc [] = acc"
| "strtol16_from acc (c # cs) =
     (case hex_digit c of None \<Rightarrow> acc | Some d \<Rightarrow> strtol16_from (16 * acc + d) cs)"

text \<open>
  \<open>strtol(s, NULL, 16)\<close> on a string of at most two characters: the value of the leading
  hexadecimal digits. (White space, a sign and a \<open>0x\<close> prefix, which strtol also accepts,
  are left out: the colour is checked to be six hexadecimal digits when the options are
  parsed.)
\<close>

definition strtol16 :: "string \<Rightarrow> int" where
  "strtol16 s = strtol16_from 0 s"

text \<open>A C string built from two array cells ends at the first NUL.\<close>

definition c_string :: "char list \<Rightarrow> string" where
  "c_string cs = takeWhile (\<lambda>c. c \<noteq> CHR 0x00) cs"

subsection \<open>The global variables and the environment\<close>

text \<open>
  Modelled from the spec: the struct \<open>Rect\<close> of the monitor list (declared in randr.h,
  which is not among the sources) is a monitor rectangle with a position and a size in
  pixels.
\<close>

record Rect =
  rect_x :: int
  rect_y :: int
  rect_width :: int
  rect_height :: int

type_synonym rgba = "real \<times> real \<times> real \<times> real"

record image_t =
  img_width :: int
  img_height :: int
  img_data :: "int \<times> int \<Rightarrow> rgba"

text \<open>The variables of i3lock.c, randr.c and this file that the functions read or write.\<close>

record globals =
  input_position :: int
  last_resolution :: "32 word \<times> 32 word"
  unlock_indicator :: bool
  clock_visible :: bool
  modifier_string :: "string option"
  img :: "image_t option"
  tile :: bool
  color :: string
  show_failed_attempts :: bool
  failed_attempts :: int
  xr_screens :: int
  xr_resolutions :: "Rect list"
  unlock_state :: unlock_state_t
  auth_state :: auth_state_t
  bg_pixmap :: nat

record tm =
  tm_min :: int
  tm_hour :: int
  tm_mday :: int
  tm_mon :: int
  tm_wday :: int

text \<open>
  What one call of \<open>draw_image\<close> samples from outside: the DPI, the value \<open>rand()\<close>
  returns (between 0 and \<open>RAND_MAX\<close>), the local time, the font metrics, and the C
  library's \<open>strftime\<close> with its locale. \<open>w_indeterminate\<close> is what a buffer holds after
  a \<open>strftime\<close> whose result did not fit.
\<close>

record world =
  w_dpi_value :: int
  w_rand :: nat
  w_localtime :: tm
  w_font :: font_metrics
  w_strftime :: "string \<Rightarrow> tm \<Rightarrow> string"
  w_indeterminate :: string

definition strftime :: "world \<Rightarrow> nat \<Rightarrow> string \<Rightarrow> tm \<Rightarrow> string" where
  "strftime w n fmt t =
     (if length (w_strftime w fmt t) < n then w_strftime w fmt t else w_indeterminate w)"

definition color_at :: "globals \<Rightarrow> nat \<Rightarrow> char" where
  "color_at g i = (if i < length (color g) then color g ! i else CHR 0x00)"

subsection \<open>\<open>draw_image\<close>: sizes and background\<close>

text \<open>
  Lines 118 to 122. \<open>get_dpi_value()\<close> returns a long, which the division by \<open>96.0\<close>
  converts to a double; the division and each product are operations on doubles, each
  rounded to the nearest double, and \<open>ceil\<close> of a double is exact.
\<close>

definition scaling_factor :: "world \<Rightarrow> real" where
  "scaling_factor w = round_double (round_double (real_of_int (w_dpi_value w)) / 96)"

definition button_diameter_physical :: "world \<Rightarrow> int" where
  "button_diameter_physical w =
     \<lceil>round_double (scaling_factor w * real_of_int BUTTON_DIAMETER)\<rceil>"

definition clock_width_physical :: "world \<Rightarrow> int" where
  "clock_width_physical w = \<lceil>round_double (scaling_factor w * real_of_int CLOCK_WIDTH)\<rceil>"

definition clock_height_physical :: "world \<Rightarrow> int" where
  "clock_height_physical w = \<lceil>round_double (scaling_factor w * real_of_int CLOCK_HEIGHT)\<rceil>"

definition margin_physical :: "world \<Rightarrow> int" where
  "margin_physical w = \<lceil>round_double (scaling_factor w * real_of_int CLOCK_MARGIN)\<rceil>"

definition strgroups :: "globals \<Rightarrow> nat \<Rightarrow> string" where
  "strgroups g i = c_string [color_at g (2 * i), color_at g (2 * i + 1)]"

definition rgb16 :: "globals \<Rightarrow> nat \<Rightarrow> int" where
  "rgb16 g i = strtol16 (strgroups g i)"

text \<open>Lines 141 to 168: the fill colour over the whole pixmap, then the image, once or tiled.\<close>

definition draw_background :: "globals \<Rightarrow> 32 word \<times> 32 word \<Rightarrow> cairo_t \<Rightarrow> cairo_t" where
  "draw_background g resolution xcb_ctx =
     (let xcb_ctx = cairo_set_source_rgb
            (real_of_int (rgb16 g 0) / 255, real_of_int (rgb16 g 1) / 255,
             real_of_int (rgb16 g 2) / 255) xcb_ctx;
          xcb_ctx = cairo_rectangle 0 0 (real (unat (fst resolution)))
            (real (unat (snd resolution))) xcb_ctx;
          xcb_ctx = cairo_fill xcb_ctx
      in case img g of
           None \<Rightarrow> xcb_ctx
         | Some _ \<Rightarrow>
             if \<not> tile g then
               (let xcb_ctx = cairo_set_source_surface IMG 0 0 xcb_ctx
                in cairo_paint xcb_ctx)
             else
               (let xcb_ctx = cairo_set_source_surface IMG 0 0 xcb_ctx;
                    xcb_ctx = cairo_pattern_set_extend CAIRO_EXTEND_REPEAT xcb_ctx;
                    xcb_ctx = cairo_rectangle 0 0 (real (unat (fst resolution)))
                      (real (unat (snd resolution))) xcb_ctx
                in cairo_fill xcb_ctx))"

subsection \<open>\<open>draw_image\<close>: the unlock indicator\<close>

text \<open>The condition of lines 170 and 171.\<close>

definition indicator_shown :: "globals \<Rightarrow> bool" where
  "indicator_shown g \<longleftrightarrow>
     unlock_indicator g \<and>
     (unlock_state_value (unlock_state g) \<ge> unlock_state_value STATE_KEY_PRESSED \<or>
      auth_state_value (auth_state g) > auth_state_value STATE_AUTH_IDLE)"

text \<open>The switch of lines 189 to 206, which selects the colour of the ring.\<close>

definition ring_color_switch :: "globals \<Rightarrow> cairo_t \<Rightarrow> cairo_t" where
  "ring_color_switch g ctx =
     (case auth_state g of
        STATE_AUTH_VERIFY \<Rightarrow> cairo_set_source_rgb (NORD nord10) ctx
      | STATE_AUTH_LOCK \<Rightarrow> cairo_set_source_rgb (NORD nord10) ctx
      | STATE_AUTH_WRONG \<Rightarrow> cairo_set_source_rgb (NORD nord11) ctx
      | STATE_I3LOCK_LOCK_FAILED \<Rightarrow> cairo_set_source_rgb (NORD nord11) ctx
      | STATE_AUTH_IDLE \<Rightarrow>
          if unlock_state g = STATE_NOTHING_TO_DELETE
          then cairo_set_source_rgb (NORD nord12) ctx
          else cairo_set_source_rgb (NORD nord3) ctx)"

text \<open>Lines 172 to 220: the disk, the ring around it and the inner separator line.\<close>

definition draw_ring :: "world \<Rightarrow> globals \<Rightarrow> cairo_t \<Rightarrow> cairo_t" where
  "draw_ring w g ctx =
     (let ctx = cairo_scale (scaling_factor w) (scaling_factor w) ctx;
          ctx = cairo_set_line_width 10 ctx;
          ctx = cairo_arc (real_of_int BUTTON_CENTER) (real_of_int BUTTON_CENTER)
                  (real_of_int BUTTON_RADIUS) 0 (2 * pi) ctx;
          ctx = cairo_set_source_rgb (NORD nord1) ctx;
          ctx = cairo_fill_preserve ctx;
          ctx = ring_color_switch g ctx;
          ctx = cairo_stroke ctx;
          ctx = cairo_set_source_rgb (NORD nord0) ctx;
          ctx = cairo_set_line_width 2 ctx;
          ctx = cairo_arc (real_of_int BUTTON_CENTER) (real_of_int BUTTON_CENTER)
                  (real_of_int (BUTTON_RADIUS - 5)) 0 (2 * pi) ctx;
          ctx = cairo_stroke ctx
      in cairo_set_line_width 10 ctx)"

text \<open>
  The switch of lines 228 to 240 on the colour of the text. The cases \<open>STATE_AUTH_WRONG\<close>
  and \<open>STATE_I3LOCK_LOCK_FAILED\<close> have no \<open>break\<close>: they run into the default case.
\<close>

definition text_color_default :: "globals \<Rightarrow> cairo_t \<Rightarrow> cairo_t" where
  "text_color_default g ctx =
     (if unlock_state g = STATE_NOTHING_TO_DELETE
      then cairo_set_source_rgb (NORD nord12) ctx else ctx)"

definition text_color_switch :: "globals \<Rightarrow> cairo_t \<Rightarrow> cairo_t" where
  "text_color_switch g ctx =
     (case auth_state g of
        STATE_AUTH_VERIFY \<Rightarrow> cairo_set_source_rgb (NORD nord9) ctx
      | STATE_AUTH_LOCK \<Rightarrow> cairo_set_source_rgb (NORD nord9) ctx
      | STATE_AUTH_WRONG \<Rightarrow> text_color_default g (cairo_set_source_rgb (NORD nord11) ctx)
      | STATE_I3LOCK_LOCK_FAILED \<Rightarrow>
          text_color_default g (cairo_set_source_rgb (NORD nord11) ctx)
      | STATE_AUTH_IDLE \<Rightarrow> text_color_default g ctx)"

definition ellipsis :: string where
  "ellipsis = [CHR 0xE2, CHR 0x80, CHR 0xA6]"

text \<open>
  The switch of lines 244 to 272 on the text: \<open>None\<close> is the null pointer. In the
  default case the failed attempts are tested after the empty-input state and overwrite
  its text; they also set the colour.
\<close>

definition text_switch :: "globals \<Rightarrow> cairo_t \<Rightarrow> string option \<times> cairo_t" where
  "text_switch g ctx =
     (case auth_state g of
        STATE_AUTH_VERIFY \<Rightarrow> (Some (''Verifying'' @ ellipsis), ctx)
      | STATE_AUTH_LOCK \<Rightarrow> (Some (''Locking'' @ ellipsis), ctx)
      | STATE_AUTH_WRONG \<Rightarrow> (Some ''Wrong!'', ctx)
      | STATE_I3LOCK_LOCK_FAILED \<Rightarrow> (Some ''Lock failed!'', ctx)
      | STATE_AUTH_IDLE \<Rightarrow>
          (let text = (if unlock_state g = STATE_NOTHING_TO_DELETE
                       then Some ''No input'' else None)
           in if show_failed_attempts g \<and> failed_attempts g > 0 then
                (let text = (if failed_attempts g > 999 then Some ''> 999''
                             else Some (snprintf_d 4 (failed_attempts g)))
                 in (text, cairo_set_source_rgb (NORD nord11) ctx))
              else (text, ctx)))"

text \<open>Lines 274 to 285 and 287 to 300: a text centred on the ring, \<open>dy\<close> below the centre.\<close>

definition show_centered :: "world \<Rightarrow> string \<Rightarrow> real \<Rightarrow> cairo_t \<Rightarrow> cairo_t" where
  "show_centered w text dy ctx =
     (let extents = cairo_text_extents (w_font w) ctx text;
          x = real_of_int BUTTON_CENTER - ((ext_width extents / 2) + x_bearing extents);
          y = real_of_int BUTTON_CENTER - ((ext_height extents / 2) + y_bearing extents) + dy;
          ctx = cairo_move_to x y ctx;
          ctx = cairo_show_text (w_font w) text ctx
      in cairo_close_path ctx)"

definition draw_text :: "world \<Rightarrow> globals \<Rightarrow> cairo_t \<Rightarrow> cairo_t" where
  "draw_text w g ctx =
     (let ctx = cairo_set_source_rgb (NORD nord4) ctx;
          ctx = text_color_switch g ctx;
          ctx = cairo_select_font_face ''Fira Mono'' ctx;
          ctx = cairo_set_font_size 24 ctx;
          (text, ctx) = text_switch g ctx;
          ctx = (case text of None \<Rightarrow> ctx | Some t \<Rightarrow> show_centered w t 0 ctx)
      in if auth_state g = STATE_AUTH_WRONG then
           (case modifier_string g of
              None \<Rightarrow> ctx
            | Some m \<Rightarrow> show_centered w m 28 (cairo_set_font_size 14 ctx))
         else ctx)"

text \<open>
  Lines 305 to 341: the highlighted part of the ring and its two separators.
  \<open>highlight_start\<close> is \<open>(rand() % (int)(2 * M_PI * 100)) / 100.0\<close>.
\<close>

definition highlight_start :: "world \<Rightarrow> real" where
  "highlight_start w =
     real_of_int (c_mod (int (w_rand w)) (int_of_double (2 * pi * 100))) / 100"

definition draw_highlight :: "world \<Rightarrow> globals \<Rightarrow> cairo_t \<Rightarrow> cairo_t" where
  "draw_highlight w g ctx =
     (if unlock_state g = STATE_KEY_ACTIVE \<or> unlock_state g = STATE_BACKSPACE_ACTIVE then
        (let ctx = cairo_new_sub_path ctx;
             ctx = cairo_arc (real_of_int BUTTON_CENTER) (real_of_int BUTTON_CENTER)
                     (real_of_int BUTTON_RADIUS)
                     (highlight_start w) (highlight_start w + (pi / 3)) ctx;
             ctx = (if unlock_state g = STATE_KEY_ACTIVE
                    then cairo_set_source_rgb (NORD nord7) ctx
                    else cairo_set_source_rgb (NORD nord11) ctx);
             ctx = cairo_stroke ctx;
             ctx = cairo_set_source_rgb (NORD nord0) ctx;
             ctx = cairo_arc (real_of_int BUTTON_CENTER) (real_of_int BUTTON_CENTER)
                     (real_of_int BUTTON_RADIUS)
                     (highlight_start w) (highlight_start w + (pi / 128)) ctx;
             ctx = cairo_stroke ctx;
             ctx = cairo_arc (real_of_int BUTTON_CENTER) (real_of_int BUTTON_CENTER)
                     (real_of_int BUTTON_RADIUS)
                     ((highlight_start w + (pi / 3)) - (pi / 128))
                     (highlight_start w + (pi / 3)) ctx
         in cairo_stroke ctx)
      else ctx)"

definition draw_indicator :: "world \<Rightarrow> globals \<Rightarrow> cairo_t \<Rightarrow> cairo_t" where
  "draw_indicator w g ctx =
     (if indicator_shown g then draw_highlight w g (draw_text w g (draw_ring w g ctx))
      else ctx)"

subsection \<open>\<open>draw_image\<close>: the clock\<close>

text \<open>Lines 344 to 396.\<close>

definition draw_clock :: "world \<Rightarrow> globals \<Rightarrow> cairo_t \<Rightarrow> cairo_t" where
  "draw_clock w g clk_ctx =
     (if clock_visible g then
        (let clk_ctx = cairo_scale (scaling_factor w) (scaling_factor w) clk_ctx;
             clk_ctx = cairo_rectangle 1 1 (real_of_int CLOCK_WIDTH - 2)
                         (real_of_int CLOCK_HEIGHT - 2) clk_ctx;
             clk_ctx = cairo_set_source_rgb (NORD nord0) clk_ctx;
             clk_ctx = cairo_fill_preserve clk_ctx;
             clk_ctx = cairo_set_line_width 2 clk_ctx;
             clk_ctx = cairo_set_source_rgb (NORD nord2) clk_ctx;
             clk_ctx = cairo_stroke clk_ctx;
             now = w_localtime w;
             time_text = strftime w 8 ''%H:%M'' now;
             date_text = strftime w 32 ''%a, %B %d'' now;
             clk_ctx = cairo_set_source_rgb (NORD nord4) clk_ctx;
             clk_ctx = cairo_select_font_face ''Fira Mono'' clk_ctx;
             clk_ctx = cairo_set_font_size 48 clk_ctx;
             extents = cairo_text_extents (w_font w) clk_ctx time_text;
             x = real_of_int CLOCK_WIDTH / 2 - (ext_width extents / 2 + x_bearing extents);
             y = 12 + ext_height extents;
             clk_ctx = cairo_move_to x y clk_ctx;
             clk_ctx = cairo_show_text (w_font w) time_text clk_ctx;
             clk_ctx = cairo_close_path clk_ctx;
             clk_ctx = cairo_set_line_width 2 clk_ctx;
             clk_ctx = cairo_set_source_rgb (NORD nord7) clk_ctx;
             clk_ctx = cairo_move_to (x - 4) (y + 4) clk_ctx;
             clk_ctx = cairo_rel_line_to (ext_width extents + 8) 0 clk_ctx;
             clk_ctx = cairo_stroke clk_ctx;
             clk_ctx = cairo_set_source_rgb (NORD nord4) clk_ctx;
             clk_ctx = cairo_set_font_size 16 clk_ctx;
             extents2 = cairo_text_extents (w_font w) clk_ctx date_text;
             x2 = real_of_int CLOCK_WIDTH / 2 - (ext_width extents2 / 2 + x_bearing extents2);
             y2 = real_of_int CLOCK_HEIGHT - 12;
             clk_ctx = cairo_move_to x2 y2 clk_ctx
         in cairo_show_text (w_font w) date_text clk_ctx)
      else clk_ctx)"

subsection \<open>\<open>draw_image\<close>: the composition on the monitors\<close>

text \<open>
  Lines 401 to 412 and 418 to 429 paint the two buffers at a position each: the source
  is set to the buffer and a rectangle of the size of the buffer is filled.
\<close>

definition composite_at :: "world \<Rightarrow> int \<times> int \<Rightarrow> int \<times> int \<Rightarrow> cairo_t \<Rightarrow> cairo_t" where
  "composite_at w pos pos2 xcb_ctx =
     (let (x, y) = pos; (x2, y2) = pos2;
          xcb_ctx = cairo_set_source_surface OUTPUT (real_of_int x) (real_of_int y) xcb_ctx;
          xcb_ctx = cairo_rectangle (real_of_int x) (real_of_int y)
                      (real_of_int (button_diameter_physical w))
                      (real_of_int (button_diameter_physical w)) xcb_ctx;
          xcb_ctx = cairo_fill xcb_ctx;
          xcb_ctx = cairo_set_source_surface CLOCK_OUTPUT (real_of_int x2) (real_of_int y2) xcb_ctx;
          xcb_ctx = cairo_rectangle (real_of_int x2) (real_of_int y2)
                      (real_of_int (clock_width_physical w))
                      (real_of_int (clock_height_physical w)) xcb_ctx
      in cairo_fill xcb_ctx)"

text \<open>The positions on a monitor of the list (lines 401, 402, 407 and 408).\<close>

definition indicator_position :: "world \<Rightarrow> Rect \<Rightarrow> int \<times> int" where
  "indicator_position w r =
     (rect_x r + (c_div (rect_width r) 2 - c_div (button_diameter_physical w) 2),
      rect_y r + (c_div (rect_height r) 2 - c_div (button_diameter_physical w) 2))"

definition clock_position :: "world \<Rightarrow> Rect \<Rightarrow> int \<times> int" where
  "clock_position w r =
     (rect_x r + rect_width r - clock_width_physical w - margin_physical w,
      rect_y r + rect_height r - clock_height_physical w - margin_physical w)"

text \<open>
  The positions without a monitor list (lines 418, 419, 424 and 425). \<open>last_resolution\<close>
  is unsigned, so the int operands are converted to unsigned, the arithmetic wraps
  around at \<open>2^32\<close>, and the result is read back as an int.
\<close>

definition fallback_indicator_position :: "world \<Rightarrow> globals \<Rightarrow> int \<times> int" where
  "fallback_indicator_position w g =
     (sint (fst (last_resolution g) div 2 - word_of_int (c_div (button_diameter_physical w) 2)),
      sint (snd (last_resolution g) div 2 - word_of_int (c_div (button_diameter_physical w) 2)))"

definition fallback_clock_position :: "world \<Rightarrow> globals \<Rightarrow> int \<times> int" where
  "fallback_clock_position w g =
     (sint (fst (last_resolution g) - word_of_int (clock_width_physical w)
            - word_of_int (margin_physical w)),
      sint (snd (last_resolution g) - word_of_int (clock_height_physical w)
            - word_of_int (margin_physical w)))"

text \<open>Lines 398 to 430. The loop runs over the indices below \<open>xr_screens\<close>.\<close>

definition composite :: "world \<Rightarrow> globals \<Rightarrow> cairo_t \<Rightarrow> cairo_t" where
  "composite w g xcb_ctx =
     (if xr_screens g > 0 then
        fold (\<lambda>screen xcb_ctx.
                composite_at w (indicator_position w (xr_resolutions g ! screen))
                  (clock_position w (xr_resolutions g ! screen)) xcb_ctx)
             [0 ..< nat (xr_screens g)] xcb_ctx
      else
        composite_at w (fallback_indicator_position w g) (fallback_clock_position w g) xcb_ctx)"

subsection \<open>\<open>draw_image\<close>\<close>

text \<open>
  The result of \<open>draw_image\<close>: the layers painted on the indicator buffer \<open>output\<close>, on
  the clock buffer \<open>clock_output\<close> and on the pixmap (\<open>xcb_output\<close>). The two buffers
  are created by each call. (\<open>vistype\<close>, which caches the visual of the screen, and the
  debug output are left out.)
\<close>

record frame =
  f_output :: "layer list"
  f_clock_output :: "layer list"
  f_xcb_output :: "layer list"

definition draw_image :: "world \<Rightarrow> globals \<Rightarrow> 32 word \<times> 32 word \<Rightarrow> frame" where
  "draw_image w g resolution =
     (let ctx = cairo_create [];
          clk_ctx = cairo_create [];
          xcb_ctx = cairo_create [];
          xcb_ctx = draw_background g resolution xcb_ctx;
          ctx = draw_indicator w g ctx;
          clk_ctx = draw_clock w g clk_ctx;
          xcb_ctx = composite w g xcb_ctx
      in \<lparr>f_output = c_target ctx, f_clock_output = c_target clk_ctx,
          f_xcb_output = c_target xcb_ctx\<rparr>)"

subsection \<open>The background pixmap: \<open>free_bg_pixmap\<close>, \<open>redraw_screen\<close>, \<open>clear_indicator\<close>\<close>

text \<open>
  The X server holds the pixmaps, by resource id, and the lock window. A resource id is a
  number and \<open>XCB_NONE\<close> is 0. \<open>x_generated\<close> counts the ids generated so far.
\<close>

record pixmap_t =
  px_size :: "32 word \<times> 32 word"
  px_content :: "layer list"

record xserver =
  x_pixmaps :: "nat \<rightharpoonup> pixmap_t"
  x_generated :: nat
  x_back_pixmap :: nat
  x_window :: "layer list"

definition XCB_NONE :: nat where "XCB_NONE = 0"

text \<open>
  Modelled from the spec: \<open>create_bg_pixmap\<close> is defined in xcb.c, which is not among
  the sources. It allocates a new background surface of the size of the resolution it is
  given: a pixmap under an id generated for it, different from \<open>XCB_NONE\<close> and from
  every id generated before.
\<close>

definition create_bg_pixmap :: "xserver \<Rightarrow> 32 word \<times> 32 word \<Rightarrow> string \<Rightarrow> nat \<times> xserver" where
  "create_bg_pixmap xs resolution col =
     (let pid = Suc (x_generated xs)
      in (pid, xs\<lparr>x_generated := pid,
                   x_pixmaps := (x_pixmaps xs)(pid \<mapsto> \<lparr>px_size = resolution, px_content = []\<rparr>)\<rparr>))"

definition xcb_free_pixmap :: "nat \<Rightarrow> xserver \<Rightarrow> xserver" where
  "xcb_free_pixmap pid xs = xs\<lparr>x_pixmaps := (x_pixmaps xs)(pid := None)\<rparr>"

text \<open>Painting on a pixmap adds to what it holds; an id without pixmap is an X error.\<close>

definition paint_pixmap :: "nat \<Rightarrow> layer list \<Rightarrow> xserver \<Rightarrow> xserver" where
  "paint_pixmap pid ls xs =
     (case x_pixmaps xs pid of
        None \<Rightarrow> xs
      | Some p \<Rightarrow> xs\<lparr>x_pixmaps := (x_pixmaps xs)(pid \<mapsto> p\<lparr>px_content := px_content p @ ls\<rparr>)\<rparr>)"

definition xcb_change_back_pixmap :: "nat \<Rightarrow> xserver \<Rightarrow> xserver" where
  "xcb_change_back_pixmap pid xs = xs\<lparr>x_back_pixmap := pid\<rparr>"

text \<open>Clearing the window paints it with its background pixmap.\<close>

definition xcb_clear_area :: "xserver \<Rightarrow> xserver" where
  "xcb_clear_area xs =
     (case x_pixmaps xs (x_back_pixmap xs) of
        None \<Rightarrow> xs
      | Some p \<Rightarrow> xs\<lparr>x_window := px_content p\<rparr>)"

type_synonym state = "globals \<times> xserver"

definition free_bg_pixmap :: "state \<Rightarrow> state" where
  "free_bg_pixmap s =
     (case s of (g, xs) \<Rightarrow> (g\<lparr>bg_pixmap := XCB_NONE\<rparr>, xcb_free_pixmap (bg_pixmap g) xs))"

definition redraw_screen :: "world \<Rightarrow> state \<Rightarrow> state" where
  "redraw_screen w s =
     (case s of (g, xs) \<Rightarrow>
        (let (g, xs) =
               (if bg_pixmap g = XCB_NONE then
                  (let (pid, xs) = create_bg_pixmap xs (last_resolution g) (color g)
                   in (g\<lparr>bg_pixmap := pid\<rparr>, xs))
                else (g, xs));
             xs = paint_pixmap (bg_pixmap g)
                    (f_xcb_output (draw_image w g (last_resolution g))) xs;
             xs = xcb_change_back_pixmap (bg_pixmap g) xs;
             xs = xcb_clear_area xs
         in (g, xs)))"

definition clear_indicator :: "world \<Rightarrow> state \<Rightarrow> state" where
  "clear_indicator w s =
     (case s of (g, xs) \<Rightarrow>
        (let g = (if input_position g = 0 then g\<lparr>unlock_state := STATE_STARTED\<rparr>
                  else g\<lparr>unlock_state := STATE_KEY_PRESSED\<rparr>)
         in redraw_screen w (g, xs)))"

text \<open>
  The calls the rest of the program makes, in sequence. \<open>bg_pixmap\<close> is static in this
  file: the rest of the program changes the other variables only.
\<close>

datatype event =
    Redraw world
  | FreeBgPixmap
  | ClearIndicator world
  | External "globals \<Rightarrow> globals"

fun step :: "event \<Rightarrow> state \<Rightarrow> state" where
  "step (Redraw w) s = redraw_screen w s"
| "step FreeBgPixmap s = free_bg_pixmap s"
| "step (ClearIndicator w) s = clear_indicator w s"
| "step (External f) (g, xs) = ((f g)\<lparr>bg_pixmap := bg_pixmap g\<rparr>, xs)"

definition run :: "event list \<Rightarrow> state \<Rightarrow> state" where
  "run es s = fold step es s"

subsection \<open>Reading the painted layers\<close>

definition rgb_source :: "rgb \<Rightarrow> source_t" where
  "rgb_source col = (case col of (r, g, b) \<Rightarrow> SourceRGB r g b)"

text \<open>The colours the specification names.\<close>

definition accent_blue :: rgb where "accent_blue = NORD nord10"
definition accent_red :: rgb where "accent_red = NORD nord11"
definition accent_orange :: rgb where "accent_orange = NORD nord12"
definition neutral_gray :: rgb where "neutral_gray = NORD nord3"

text \<open>The table of ring colours, in the words of the specification.\<close>

fun ring_color_table :: "auth_state_t \<Rightarrow> unlock_state_t \<Rightarrow> rgb" where
  "ring_color_table STATE_AUTH_VERIFY us = accent_blue"
| "ring_color_table STATE_AUTH_LOCK us = accent_blue"
| "ring_color_table STATE_AUTH_WRONG us = accent_red"
| "ring_color_table STATE_I3LOCK_LOCK_FAILED us = accent_red"
| "ring_color_table STATE_AUTH_IDLE us =
     (if us = STATE_NOTHING_TO_DELETE then accent_orange else neutral_gray)"

text \<open>The three layers of the ring, painted on a context with graphics state \<open>gs\<close>.\<close>

definition ring_layers :: "world \<Rightarrow> globals \<Rightarrow> gstate \<Rightarrow> layer list" where
  "ring_layers w g gs =
     (let gs1 = gs\<lparr>gs_scale := (fst (gs_scale gs) * scaling_factor w,
                                 snd (gs_scale gs) * scaling_factor w),
                   gs_line_width := 10\<rparr>
      in [\<lparr>l_gstate = gs1\<lparr>gs_source := rgb_source (NORD nord1)\<rparr>,
            l_path = [Arc 95 95 90 0 (2 * pi)], l_op = Fill\<rparr>,
          \<lparr>l_gstate = gs1\<lparr>gs_source :=
               rgb_source (ring_color_table (auth_state g) (unlock_state g))\<rparr>,
            l_path = [Arc 95 95 90 0 (2 * pi)], l_op = Stroke\<rparr>,
          \<lparr>l_gstate = gs1\<lparr>gs_source := rgb_source (NORD nord0), gs_line_width := 2\<rparr>,
            l_path = [Arc 95 95 85 0 (2 * pi)], l_op = Stroke\<rparr>])"

definition is_disk :: "layer \<Rightarrow> bool" where
  "is_disk l \<longleftrightarrow> l_op l = Fill \<and> l_path l = [Arc 95 95 90 0 (2 * pi)]"

definition is_ring :: "layer \<Rightarrow> bool" where
  "is_ring l \<longleftrightarrow>
     l_op l = Stroke \<and> l_path l = [Arc 95 95 90 0 (2 * pi)] \<and> gs_line_width (l_gstate l) = 10"

definition is_separator :: "layer \<Rightarrow> bool" where
  "is_separator l \<longleftrightarrow>
     l_op l = Stroke \<and> l_path l = [Arc 95 95 85 0 (2 * pi)] \<and> gs_line_width (l_gstate l) = 2"

text \<open>The ring is present on a buffer that starts with the disk, the ring and the separator.\<close>

definition ring_present :: "layer list \<Rightarrow> bool" where
  "ring_present ls =
     (case ls of a # b # c # rest \<Rightarrow> is_disk a \<and> is_ring b \<and> is_separator c | _ \<Rightarrow> False)"

definition ring_stroke :: "layer list \<Rightarrow> layer option" where
  "ring_stroke ls = (case ls of a # b # rest \<Rightarrow> Some b | _ \<Rightarrow> None)"

text \<open>The texts shown on a buffer, in order, each with its font size and its colour.\<close>

fun shown_texts :: "layer list \<Rightarrow> (string \<times> real \<times> source_t) list" where
  "shown_texts [] = []"
| "shown_texts (l # ls) =
     (case l_op l of
        ShowText s x y \<Rightarrow> (s, gs_font_size (l_gstate l), gs_source (l_gstate l)) # shown_texts ls
      | _ \<Rightarrow> shown_texts ls)"

text \<open>The status text is the text of size 24; the modifiers are shown in size 14.\<close>

definition status_texts :: "layer list \<Rightarrow> (string \<times> source_t) list" where
  "status_texts ls = map (\<lambda>t. (fst t, snd (snd t))) (filter (\<lambda>t. fst (snd t) = 24) (shown_texts ls))"

text \<open>What the switches of \<open>draw_image\<close> select: the text, and the colour it is shown in.\<close>

definition status_text :: "globals \<Rightarrow> string option" where
  "status_text g = fst (text_switch g (cairo_create []))"

definition status_color :: "globals \<Rightarrow> source_t" where
  "status_color g =
     gs_source (c_gstate (snd (text_switch g
       (text_color_switch g (cairo_set_source_rgb (NORD nord4) (cairo_create []))))))"

definition text_ctx :: "globals \<Rightarrow> cairo_t \<Rightarrow> cairo_t" where
  "text_ctx g c =
     c\<lparr>c_gstate := (c_gstate c)\<lparr>gs_source := status_color g, gs_font_face := ''Fira Mono'',
                                 gs_font_size := 24\<rparr>\<rparr>"

definition expected_texts :: "globals \<Rightarrow> (string \<times> real \<times> source_t) list" where
  "expected_texts g =
     (case status_text g of None \<Rightarrow> [] | Some t \<Rightarrow> [(t, 24, status_color g)])
     @ (if auth_state g = STATE_AUTH_WRONG then
          (case modifier_string g of
             None \<Rightarrow> []
           | Some m \<Rightarrow> if m = [] then [] else [(m, 14, status_color g)])
        else [])"

text \<open>The path elements that draw something when stroked.\<close>

fun drawing_elem :: "path_elem \<Rightarrow> bool" where
  "drawing_elem (MoveTo x y) = False"
| "drawing_elem ClosePath = False"
| "drawing_elem e = True"

text \<open>The value of a string of decimal digits.\<close>

definition digit_value :: "char \<Rightarrow> nat" where
  "digit_value c = of_char c - 48"

definition decimal_value :: "string \<Rightarrow> nat" where
  "decimal_value s = foldl (\<lambda>acc c. 10 * acc + digit_value c) 0 s"

text \<open>
  The text and its colour as the specification gives them: the text of the
  authentication state first, then the empty-input text, then the failed attempts; the
  colour of the ring, and red for the failed attempts.
\<close>

definition counter_text :: "int \<Rightarrow> string" where
  "counter_text n = (if n > 999 then ''> 999'' else format_d n)"

definition claimed_text :: "globals \<Rightarrow> string option" where
  "claimed_text g =
     (case auth_state g of
        STATE_AUTH_VERIFY \<Rightarrow> Some (''Verifying'' @ ellipsis)
      | STATE_AUTH_LOCK \<Rightarrow> Some (''Locking'' @ ellipsis)
      | STATE_AUTH_WRONG \<Rightarrow> Some ''Wrong!''
      | STATE_I3LOCK_LOCK_FAILED \<Rightarrow> Some ''Lock failed!''
      | STATE_AUTH_IDLE \<Rightarrow>
          if unlock_state g = STATE_NOTHING_TO_DELETE then Some ''No input''
          else if show_failed_attempts g \<and> failed_attempts g > 0
          then Some (counter_text (failed_attempts g)) else None)"

definition claimed_text_color :: "globals \<Rightarrow> rgb" where
  "claimed_text_color g =
     (if auth_state g = STATE_AUTH_IDLE \<and> unlock_state g \<noteq> STATE_NOTHING_TO_DELETE \<and>
         show_failed_attempts g \<and> failed_attempts g > 0
      then accent_red
      else ring_color_table (auth_state g) (unlock_state g))"

text \<open>
  The text and its colour as the code selects them: the failed attempts come before the
  empty-input text, and the text has colours of its own.
\<close>

definition selected_text :: "globals \<Rightarrow> string option" where
  "selected_text g =
     (case auth_state g of
        STATE_AUTH_VERIFY \<Rightarrow> Some (''Verifying'' @ ellipsis)
      | STATE_AUTH_LOCK \<Rightarrow> Some (''Locking'' @ ellipsis)
      | STATE_AUTH_WRONG \<Rightarrow> Some ''Wrong!''
      | STATE_I3LOCK_LOCK_FAILED \<Rightarrow> Some ''Lock failed!''
      | STATE_AUTH_IDLE \<Rightarrow>
          if show_failed_attempts g \<and> failed_attempts g > 0
          then Some (counter_text (failed_attempts g))
          else if unlock_state g = STATE_NOTHING_TO_DELETE then Some ''No input'' else None)"

definition selected_text_color :: "globals \<Rightarrow> rgb" where
  "selected_text_color g =
     (case auth_state g of
        STATE_AUTH_VERIFY \<Rightarrow> NORD nord9
      | STATE_AUTH_LOCK \<Rightarrow> NORD nord9
      | STATE_AUTH_WRONG \<Rightarrow> accent_red
      | STATE_I3LOCK_LOCK_FAILED \<Rightarrow> accent_red
      | STATE_AUTH_IDLE \<Rightarrow>
          if show_failed_attempts g \<and> failed_attempts g > 0 then accent_red
          else if unlock_state g = STATE_NOTHING_TO_DELETE then accent_orange
          else NORD nord4)"

text \<open>The texts the state selects for the ring: the status text and the modifiers.\<close>

definition ring_texts :: "globals \<Rightarrow> string list" where
  "ring_texts g =
     (case selected_text g of None \<Rightarrow> [] | Some t \<Rightarrow> [t])
     @ (if auth_state g = STATE_AUTH_WRONG then
          (case modifier_string g of
             None \<Rightarrow> []
           | Some m \<Rightarrow> if m = [] then [] else [m])
        else [])"

text \<open>An environment and a state to evaluate the functions on.\<close>

definition sample_font :: font_metrics where
  "sample_font face sz s =
     \<lparr>x_bearing = 1, y_bearing = - sz, ext_width = sz * real (length s) / 2, ext_height = sz,
      x_advance = sz * real (length s) / 2, y_advance = 0\<rparr>"

definition pad2 :: "int \<Rightarrow> string" where
  "pad2 i = (if 0 \<le> i \<and> i < 10 then CHR ''0'' # format_d i else format_d i)"

definition sample_strftime :: "string \<Rightarrow> tm \<Rightarrow> string" where
  "sample_strftime fmt t =
     (if fmt = ''%H:%M'' then pad2 (tm_hour t) @ '':'' @ pad2 (tm_min t)
      else ''Day, Month '' @ pad2 (tm_mday t))"

definition sample_world :: world where
  "sample_world =
     \<lparr>w_dpi_value = 96, w_rand = 1000,
      w_localtime = \<lparr>tm_min = 30, tm_hour = 9, tm_mday = 5, tm_mon = 0, tm_wday = 1\<rparr>,
      w_font = sample_font, w_strftime = sample_strftime, w_indeterminate = []\<rparr>"

definition sample_globals :: globals where
  "sample_globals =
     \<lparr>input_position = 1, last_resolution = (1920, 1080), unlock_indicator = True,
      clock_visible = True, modifier_string = None, img = None, tile = False,
      color = ''ffffff'', show_failed_attempts = True, failed_attempts = 3,
      xr_screens = 2,
      xr_resolutions = [\<lparr>rect_x = 0, rect_y = 0, rect_width = 1920, rect_height = 1080\<rparr>,
                        \<lparr>rect_x = 1920, rect_y = 0, rect_width = 1281, rect_height = 1024\<rparr>],
      unlock_state = STATE_KEY_PRESSED, auth_state = STATE_AUTH_IDLE, bg_pixmap = 0\<rparr>"


text \<open>The strokes on a buffer, in order: colour, line width and what the path draws.\<close>

fun strokes :: "layer list \<Rightarrow> (source_t \<times> real \<times> path_elem list) list" where
  "strokes [] = []"
| "strokes (l # ls) =
     (case l_op l of
        Stroke \<Rightarrow> (gs_source (l_gstate l), gs_line_width (l_gstate l),
                   filter drawing_elem (l_path l)) # strokes ls
      | _ \<Rightarrow> strokes ls)"

definition degrees :: "real \<Rightarrow> real" where
  "degrees a = a * 180 / pi"


text \<open>
  The buffers painted on the pixmap, in order: the buffer, the position of its origin
  and the path that was filled with it. The background image is not a buffer.
\<close>

fun blits :: "layer list \<Rightarrow> (surface_name \<times> real \<times> real \<times> path_elem list) list" where
  "blits [] = []"
| "blits (l # ls) =
     (case gs_source (l_gstate l) of
        SourceSurface s x y e \<Rightarrow>
          if s \<noteq> IMG \<and> l_op l = Fill then (s, x, y, l_path l) # blits ls else blits ls
      | SourceRGB r g b \<Rightarrow> blits ls)"

text \<open>
  The monitor rectangles of the specification: the list, or without monitors one
  rectangle that covers the resolution.
\<close>

definition monitors :: "globals \<Rightarrow> Rect list" where
  "monitors g =
     (if xr_screens g > 0 then xr_resolutions g
      else [\<lparr>rect_x = 0, rect_y = 0, rect_width = uint (fst (last_resolution g)),
             rect_height = uint (snd (last_resolution g))\<rparr>])"

definition placement :: "world \<Rightarrow> globals \<Rightarrow> Rect \<Rightarrow> (int \<times> int) \<times> (int \<times> int)" where
  "placement w g r =
     (if xr_screens g > 0 then (indicator_position w r, clock_position w r)
      else (fallback_indicator_position w g, fallback_clock_position w g))"

definition blit_pair ::
  "world \<Rightarrow> (int \<times> int) \<times> (int \<times> int) \<Rightarrow> (surface_name \<times> real \<times> real \<times> path_elem list) list"
where
  "blit_pair w pp =
     [(OUTPUT, real_of_int (fst (fst pp)), real_of_int (snd (fst pp)),
       [Rectangle (real_of_int (fst (fst pp))) (real_of_int (snd (fst pp)))
          (real_of_int (button_diameter_physical w)) (real_of_int (button_diameter_physical w))]),
      (CLOCK_OUTPUT, real_of_int (fst (snd pp)), real_of_int (snd (snd pp)),
       [Rectangle (real_of_int (fst (snd pp))) (real_of_int (snd (snd pp)))
          (real_of_int (clock_width_physical w)) (real_of_int (clock_height_physical w))])]"

text \<open>The centre of the indicator buffer is within one pixel of the centre of the rectangle.\<close>

definition centred :: "world \<Rightarrow> Rect \<Rightarrow> int \<times> int \<Rightarrow> bool" where
  "centred w r p \<longleftrightarrow>
     \<bar>(real_of_int (fst p) + real_of_int (button_diameter_physical w) / 2)
        - (real_of_int (rect_x r) + real_of_int (rect_width r) / 2)\<bar> \<le> 1 \<and>
     \<bar>(real_of_int (snd p) + real_of_int (button_diameter_physical w) / 2)
        - (real_of_int (rect_y r) + real_of_int (rect_height r) / 2)\<bar> \<le> 1"

text \<open>The bottom right corner of the clock buffer is the margin away from the rectangle's.\<close>

definition inset :: "world \<Rightarrow> Rect \<Rightarrow> int \<times> int \<Rightarrow> bool" where
  "inset w r p \<longleftrightarrow>
     fst p + clock_width_physical w = rect_x r + rect_width r - margin_physical w \<and>
     snd p + clock_height_physical w = rect_y r + rect_height r - margin_physical w"


text \<open>A state of the program and of the X server to evaluate the functions on.\<close>

definition sample_xserver :: xserver where
  "sample_xserver = \<lparr>x_pixmaps = Map.empty, x_generated = 7, x_back_pixmap = 0, x_window = []\<rparr>"


subsection \<open>What the layers look like: compositing\<close>

text \<open>
  cairo paints a layer with the operator OVER: at each pixel the source, weighted by the
  coverage of the painted shape, lies over what the surface held. Colours are
  premultiplied by the opacity. The coverage of a shape at a pixel is the rasteriser's
  (\<open>coverage\<close>, a parameter). A surface used as a source is transparent outside its
  area unless it is repeated. A buffer is what its layers give over a transparent
  surface.
\<close>

type_synonym pixel = "int \<times> int"

type_synonym rasteriser = "layer \<Rightarrow> pixel \<Rightarrow> real"

definition transparent :: rgba where
  "transparent = (0, 0, 0, 0)"

definition over :: "rgba \<Rightarrow> rgba \<Rightarrow> rgba" where
  "over s d =
     (case s of (sr, sg, sb, sa) \<Rightarrow>
        case d of (dr, dg, db, da) \<Rightarrow>
          (sr + (1 - sa) * dr, sg + (1 - sa) * dg, sb + (1 - sa) * db, sa + (1 - sa) * da))"

definition scale_rgba :: "real \<Rightarrow> rgba \<Rightarrow> rgba" where
  "scale_rgba k c = (case c of (r, g, b, a) \<Rightarrow> (k * r, k * g, k * b, k * a))"

definition sample_image :: "image_t \<Rightarrow> extend_t \<Rightarrow> pixel \<Rightarrow> rgba" where
  "sample_image im e p =
     (case e of
        CAIRO_EXTEND_NONE \<Rightarrow>
          if 0 \<le> fst p \<and> fst p < img_width im \<and> 0 \<le> snd p \<and> snd p < img_height im
          then img_data im p else transparent
      | CAIRO_EXTEND_REPEAT \<Rightarrow>
          if 0 < img_width im \<and> 0 < img_height im
          then img_data im (fst p mod img_width im, snd p mod img_height im)
          else transparent)"

definition source_pixel :: "(surface_name \<Rightarrow> image_t) \<Rightarrow> source_t \<Rightarrow> pixel \<Rightarrow> rgba" where
  "source_pixel surf src p =
     (case src of
        SourceRGB r g b \<Rightarrow> (r, g, b, 1)
      | SourceSurface s x y e \<Rightarrow> sample_image (surf s) e (fst p - \<lfloor>x\<rfloor>, snd p - \<lfloor>y\<rfloor>))"

definition layer_pixel :: "rasteriser \<Rightarrow> (surface_name \<Rightarrow> image_t) \<Rightarrow> layer \<Rightarrow> pixel \<Rightarrow> rgba" where
  "layer_pixel coverage surf l p =
     scale_rgba (coverage l p) (source_pixel surf (gs_source (l_gstate l)) p)"

definition render ::
  "rasteriser \<Rightarrow> (surface_name \<Rightarrow> image_t) \<Rightarrow> (pixel \<Rightarrow> rgba) \<Rightarrow> layer list \<Rightarrow> pixel \<Rightarrow> rgba"
where
  "render coverage surf base ls p =
     foldl (\<lambda>d l. over (layer_pixel coverage surf l p) d) (base p) ls"

definition empty_image :: image_t where
  "empty_image = \<lparr>img_width = 0, img_height = 0, img_data = (\<lambda>p. transparent)\<rparr>"

definition buffer_image :: "rasteriser \<Rightarrow> int \<Rightarrow> int \<Rightarrow> layer list \<Rightarrow> image_t" where
  "buffer_image coverage wd ht ls =
     \<lparr>img_width = wd, img_height = ht,
      img_data = render coverage (\<lambda>s. empty_image) (\<lambda>p. transparent) ls\<rparr>"

text \<open>The surfaces the pixmap is painted from, and the pixmap after \<open>draw_image\<close>.\<close>

definition frame_surfaces :: "rasteriser \<Rightarrow> world \<Rightarrow> globals \<Rightarrow> frame \<Rightarrow> surface_name \<Rightarrow> image_t" where
  "frame_surfaces coverage w g F s =
     (case s of
        OUTPUT \<Rightarrow> buffer_image coverage (button_diameter_physical w)
                    (button_diameter_physical w) (f_output F)
      | CLOCK_OUTPUT \<Rightarrow> buffer_image coverage (clock_width_physical w)
                          (clock_height_physical w) (f_clock_output F)
      | IMG \<Rightarrow> (case img g of None \<Rightarrow> empty_image | Some im \<Rightarrow> im))"

definition pixmap_image ::
  "rasteriser \<Rightarrow> world \<Rightarrow> globals \<Rightarrow> (pixel \<Rightarrow> rgba) \<Rightarrow> frame \<Rightarrow> pixel \<Rightarrow> rgba"
where
  "pixmap_image coverage w g prev F =
     render coverage (frame_surfaces coverage w g F) prev (f_xcb_output F)"

definition painted_from :: "surface_name \<Rightarrow> layer \<Rightarrow> bool" where
  "painted_from s l =
     (case gs_source (l_gstate l) of
        SourceSurface s' x y e \<Rightarrow> s' = s
      | SourceRGB r g b \<Rightarrow> False)"

text \<open>The first layer on the pixmap: the fill colour over the whole resolution.\<close>

definition background_fill :: "globals \<Rightarrow> 32 word \<times> 32 word \<Rightarrow> layer" where
  "background_fill g resolution =
     \<lparr>l_gstate = (c_gstate (cairo_create []))\<lparr>gs_source :=
         SourceRGB (real_of_int (rgb16 g 0) / 255) (real_of_int (rgb16 g 1) / 255)
           (real_of_int (rgb16 g 2) / 255)\<rparr>,
      l_path = [Rectangle 0 0 (real (unat (fst resolution))) (real (unat (snd resolution)))],
      l_op = Fill\<rparr>"

subsection \<open>The inputs of a frame\<close>

text \<open>The inputs the specification lists for a frame.\<close>

definition same_listed_inputs :: "world \<Rightarrow> globals \<Rightarrow> world \<Rightarrow> globals \<Rightarrow> bool" where
  "same_listed_inputs w1 g1 w2 g2 \<longleftrightarrow>
     auth_state g1 = auth_state g2 \<and> unlock_state g1 = unlock_state g2 \<and>
     failed_attempts g1 = failed_attempts g2 \<and> w_rand w1 = w_rand w2 \<and>
     xr_screens g1 = xr_screens g2 \<and> xr_resolutions g1 = xr_resolutions g2 \<and>
     last_resolution g1 = last_resolution g2 \<and> w_dpi_value w1 = w_dpi_value w2"

text \<open>
  The inputs the code reads: those, the configuration (the flags, the modifiers, the
  fill colour, the image and whether it is tiled), the font metrics, and the time and
  date as \<open>strftime\<close> formats them.
\<close>

definition same_inputs :: "world \<Rightarrow> globals \<Rightarrow> world \<Rightarrow> globals \<Rightarrow> bool" where
  "same_inputs w1 g1 w2 g2 \<longleftrightarrow>
     same_listed_inputs w1 g1 w2 g2 \<and>
     unlock_indicator g1 = unlock_indicator g2 \<and> clock_visible g1 = clock_visible g2 \<and>
     show_failed_attempts g1 = show_failed_attempts g2 \<and>
     modifier_string g1 = modifier_string g2 \<and>
     img g1 = img g2 \<and> tile g1 = tile g2 \<and>
     strgroups g1 0 = strgroups g2 0 \<and> strgroups g1 1 = strgroups g2 1 \<and>
     strgroups g1 2 = strgroups g2 2 \<and>
     w_font w1 = w_font w2 \<and>
     strftime w1 8 ''%H:%M'' (w_localtime w1) = strftime w2 8 ''%H:%M'' (w_localtime w2) \<and>
     strftime w1 32 ''%a, %B %d'' (w_localtime w1)
       = strftime w2 32 ''%a, %B %d'' (w_localtime w2)"


definition sample_coverage :: rasteriser where
  "sample_coverage l p = 1"

definition sample_hidden :: globals where
  "sample_hidden = sample_globals\<lparr>unlock_state := STATE_STARTED, clock_visible := False\<rparr>"


section \<open>Properties\<close>

subsection \<open>The layers of the indicator\<close>

lemmas button_consts = BUTTON_RADIUS_def BUTTON_SPACE_def BUTTON_CENTER_def BUTTON_DIAMETER_def

lemmas path_ops = cairo_arc_def cairo_rectangle_def cairo_move_to_def cairo_rel_line_to_def
  cairo_close_path_def cairo_new_sub_path_def cairo_new_path_def

lemmas paint_ops = paint_layer_def cairo_fill_preserve_def cairo_fill_def cairo_stroke_def
  cairo_paint_def cairo_text_extents_def cairo_show_text_def

lemmas gstate_ops = cairo_scale_def cairo_set_line_width_def cairo_set_source_surface_def
  cairo_select_font_face_def cairo_set_font_size_def

lemma cairo_set_source_rgb_eq:
  "cairo_set_source_rgb col c = c\<lparr>c_gstate := (c_gstate c)\<lparr>gs_source := rgb_source col\<rparr>\<rparr>"
  by (simp add: cairo_set_source_rgb_def rgb_source_def split: prod.splits)

lemma cairo_create_simps [simp]:
  "c_target (cairo_create ls) = ls"
  "c_path (cairo_create ls) = []"
  "c_point (cairo_create ls) = None"
  by (simp_all add: cairo_create_def)

lemma ring_color_switch_eq:
  "ring_color_switch g c =
     cairo_set_source_rgb (ring_color_table (auth_state g) (unlock_state g)) c"
  by (cases "auth_state g")
     (simp_all add: ring_color_switch_def accent_blue_def accent_red_def accent_orange_def
        neutral_gray_def)

lemma draw_ring_target:
  "c_point c = None \<Longrightarrow> c_path c = [] \<Longrightarrow>
   c_target (draw_ring w g c) = c_target c @ ring_layers w g (c_gstate c)"
  by (simp add: draw_ring_def Let_def ring_layers_def ring_color_switch_eq
       cairo_set_source_rgb_eq gstate_ops path_ops paint_ops button_consts)

lemma draw_ring_gstate:
  "c_gstate (draw_ring w g c) =
     (c_gstate c)\<lparr>gs_scale := (fst (gs_scale (c_gstate c)) * scaling_factor w,
                                snd (gs_scale (c_gstate c)) * scaling_factor w),
                  gs_line_width := 10, gs_source := rgb_source (NORD nord0)\<rparr>"
  by (simp add: draw_ring_def Let_def ring_color_switch_eq
       cairo_set_source_rgb_eq gstate_ops path_ops paint_ops)

lemma draw_ring_path: "c_path (draw_ring w g c) = [] \<and> c_point (draw_ring w g c) = None"
  by (simp add: draw_ring_def Let_def ring_color_switch_eq
       cairo_set_source_rgb_eq gstate_ops path_ops paint_ops)

lemma show_centered_target:
  "c_target (show_centered w t dy c) =
     c_target c @ (if t = [] then [] else
       [\<lparr>l_gstate = c_gstate c, l_path = [],
         l_op = ShowText t
           (real_of_int BUTTON_CENTER - (ext_width (cairo_text_extents (w_font w) c t) / 2
              + x_bearing (cairo_text_extents (w_font w) c t)))
           (real_of_int BUTTON_CENTER - (ext_height (cairo_text_extents (w_font w) c t) / 2
              + y_bearing (cairo_text_extents (w_font w) c t)) + dy)\<rparr>])"
  by (simp add: show_centered_def path_ops paint_ops Let_def)

lemma show_centered_gstate: "c_gstate (show_centered w t dy c) = c_gstate c"
  by (simp add: show_centered_def path_ops paint_ops Let_def)

lemma show_centered_path:
  "filter drawing_elem (c_path (show_centered w t dy c)) = filter drawing_elem (c_path c)"
  by (simp add: show_centered_def path_ops paint_ops Let_def)

lemma digits_not_Nil: "digits n \<noteq> []"
  by (subst digits.simps) simp

lemma length_digits_lt10: "n < 10 \<Longrightarrow> length (digits n) = 1"
  by (subst digits.simps) simp

lemma length_digits_lt100: "n < 100 \<Longrightarrow> length (digits n) \<le> 2"
  by (subst digits.simps) (simp add: length_digits_lt10)

lemma length_digits_lt1000: "n < 1000 \<Longrightarrow> length (digits n) \<le> 3"
  using length_digits_lt100 [of "n div 10"] by (subst digits.simps) simp

lemma snprintf_d_exact: "0 \<le> i \<Longrightarrow> i \<le> 999 \<Longrightarrow> snprintf_d 4 i = format_d i"
  using length_digits_lt1000 [of "nat i"] by (simp add: snprintf_d_def format_d_def)

lemma format_d_not_Nil: "format_d i \<noteq> []"
  by (simp add: format_d_def digits_not_Nil)

lemma digit_value_digit_char: "d < 10 \<Longrightarrow> digit_value (digit_char d) = d"
  by (simp add: digit_value_def digit_char_def)

lemma decimal_value_snoc: "decimal_value (s @ [c]) = 10 * decimal_value s + digit_value c"
  by (simp add: decimal_value_def)

lemma decimal_value_digits: "decimal_value (digits n) = n"
proof (induction n rule: digits.induct)
  case (1 n)
  show ?case
  proof (cases "n < 10")
    case True
    then show ?thesis
      by (subst digits.simps) (simp add: decimal_value_def digit_value_digit_char)
  next
    case False
    with "1" have "decimal_value (digits (n div 10)) = n div 10" by simp
    with False show ?thesis
      by (subst digits.simps) (simp add: decimal_value_snoc digit_value_digit_char)
  qed
qed

lemma text_switch_fst: "fst (text_switch g c) = status_text g"
  by (cases "auth_state g") (simp_all add: text_switch_def status_text_def Let_def)

lemma status_text_eq: "status_text g = selected_text g"
  by (cases "auth_state g")
     (auto simp add: text_switch_def status_text_def selected_text_def counter_text_def Let_def
        snprintf_d_exact)

lemma status_text_not_empty: "status_text g \<noteq> Some []"
  by (cases "auth_state g")
     (auto simp add: status_text_eq selected_text_def counter_text_def format_d_not_Nil)

lemma text_switch_snd:
  "snd (text_switch g (cairo_set_font_size 24 (cairo_select_font_face ''Fira Mono''
      (text_color_switch g (cairo_set_source_rgb (NORD nord4) c))))) = text_ctx g c"
  by (cases "auth_state g")
     (simp_all add: text_switch_def status_color_def Let_def text_color_switch_def
        text_color_default_def cairo_set_source_rgb_eq cairo_set_font_size_def
        cairo_select_font_face_def cairo_create_def text_ctx_def)

lemma draw_text_eq:
  "draw_text w g c =
     (let c2 = (case status_text g of
                  None \<Rightarrow> text_ctx g c
                | Some t \<Rightarrow> show_centered w t 0 (text_ctx g c))
      in if auth_state g = STATE_AUTH_WRONG then
           (case modifier_string g of
              None \<Rightarrow> c2
            | Some m \<Rightarrow> show_centered w m 28 (cairo_set_font_size 14 c2))
         else c2)"
  unfolding draw_text_def Let_def case_prod_beta text_switch_fst text_switch_snd
  by (rule refl)

lemma shown_texts_append: "shown_texts (xs @ ys) = shown_texts xs @ shown_texts ys"
  by (induction xs) (simp_all split: paint_op.splits)

lemma draw_text_shown:
  "shown_texts (c_target (draw_text w g c)) = shown_texts (c_target c) @ expected_texts g"
  using status_text_not_empty [of g]
  by (simp add: draw_text_eq Let_def show_centered_target show_centered_gstate
       shown_texts_append expected_texts_def cairo_set_font_size_def text_ctx_def
       split: option.splits)

lemma draw_text_gstate:
  "gs_line_width (c_gstate (draw_text w g c)) = gs_line_width (c_gstate c) \<and>
   gs_scale (c_gstate (draw_text w g c)) = gs_scale (c_gstate c)"
  by (simp add: draw_text_eq Let_def show_centered_gstate cairo_set_font_size_def text_ctx_def
       split: option.splits)

lemma draw_text_path:
  "filter drawing_elem (c_path (draw_text w g c)) = filter drawing_elem (c_path c)"
  by (simp add: draw_text_eq Let_def show_centered_path cairo_set_font_size_def text_ctx_def
       split: option.splits)

lemma draw_text_extends: "\<exists>ls. c_target (draw_text w g c) = c_target c @ ls"
  by (simp add: draw_text_eq Let_def show_centered_target cairo_set_font_size_def text_ctx_def
       split: option.splits)

lemma draw_highlight_extends: "\<exists>ls. c_target (draw_highlight w g c) = c_target c @ ls"
  by (simp add: draw_highlight_def Let_def cairo_set_source_rgb_eq path_ops paint_ops)

lemma draw_highlight_shown:
  "shown_texts (c_target (draw_highlight w g c)) = shown_texts (c_target c)"
  by (simp add: draw_highlight_def Let_def shown_texts_append cairo_set_source_rgb_eq
       path_ops paint_ops)

lemma shown_texts_ring: "shown_texts (ring_layers w g gs) = []"
  by (simp add: ring_layers_def Let_def)

lemma f_output_draw_image:
  "f_output (draw_image w g res) = c_target (draw_indicator w g (cairo_create []))"
  by (simp add: draw_image_def Let_def)

lemma f_output_hidden: "\<not> indicator_shown g \<Longrightarrow> f_output (draw_image w g res) = []"
  by (simp add: f_output_draw_image draw_indicator_def)

lemma f_output_shown:
  assumes "indicator_shown g"
  shows "\<exists>ls. f_output (draw_image w g res)
           = ring_layers w g (c_gstate (cairo_create [])) @ ls"
proof -
  obtain l1 where l1: "c_target (draw_text w g (draw_ring w g (cairo_create [])))
      = c_target (draw_ring w g (cairo_create [])) @ l1"
    using draw_text_extends by blast
  obtain l2 where l2:
    "c_target (draw_highlight w g (draw_text w g (draw_ring w g (cairo_create []))))
      = c_target (draw_text w g (draw_ring w g (cairo_create []))) @ l2"
    using draw_highlight_extends by blast
  show ?thesis
    using assms by (simp add: f_output_draw_image draw_indicator_def l1 l2 draw_ring_target)
qed

lemma draw_image_shown_texts:
  "shown_texts (f_output (draw_image w g res))
     = (if indicator_shown g then expected_texts g else [])"
  by (simp add: f_output_draw_image draw_indicator_def draw_highlight_shown draw_text_shown
       draw_ring_target shown_texts_ring)

lemma indicator_shown_iff:
  "indicator_shown g \<longleftrightarrow>
     unlock_indicator g \<and> (unlock_state g \<noteq> STATE_STARTED \<or> auth_state g \<noteq> STATE_AUTH_IDLE)"
  by (cases "unlock_state g"; cases "auth_state g") (simp_all add: indicator_shown_def)

lemma ring_present_layers: "ring_present (ring_layers w g gs @ ls)"
  by (simp add: ring_present_def ring_layers_def Let_def is_disk_def is_ring_def is_separator_def)


lemma status_color_eq:
  "status_color g =
     rgb_source
       (if (auth_state g = STATE_AUTH_WRONG \<or> auth_state g = STATE_I3LOCK_LOCK_FAILED) \<and>
           unlock_state g = STATE_NOTHING_TO_DELETE
        then accent_orange else selected_text_color g)"
  by (cases "auth_state g")
     (simp_all add: status_color_def text_switch_def text_color_switch_def
        text_color_default_def selected_text_color_def cairo_set_source_rgb_eq Let_def
        cairo_create_def accent_red_def accent_orange_def)

lemma status_texts_expected:
  "status_texts (f_output (draw_image w g res))
     = (if indicator_shown g then
          (case selected_text g of None \<Rightarrow> [] | Some t \<Rightarrow> [(t, status_color g)])
        else [])"
  by (cases "selected_text g"; cases "auth_state g = STATE_AUTH_WRONG";
      cases "modifier_string g"; cases "the (modifier_string g) = []")
     (simp_all add: status_texts_def draw_image_shown_texts expected_texts_def status_text_eq)

lemma decimal_value_format_d: "0 \<le> i \<Longrightarrow> decimal_value (format_d i) = nat i"
  by (simp add: format_d_def decimal_value_digits)

lemma length_format_d: "0 \<le> i \<Longrightarrow> i \<le> 999 \<Longrightarrow> length (format_d i) \<le> 3"
  using length_digits_lt1000 [of "nat i"] by (simp add: format_d_def)

lemma digits_3: "digits 3 = ''3''"
  by code_simp

lemma sample_shown: "indicator_shown (sample_globals\<lparr>unlock_state := us\<rparr>) \<longleftrightarrow> us \<noteq> STATE_STARTED"
  by (simp add: indicator_shown_iff sample_globals_def)

lemma ring_texts_shown:
  "map fst (shown_texts (f_output (draw_image w g res)))
     = (if indicator_shown g then ring_texts g else [])"
  by (cases "selected_text g"; cases "modifier_string g")
     (simp_all add: draw_image_shown_texts expected_texts_def ring_texts_def status_text_eq)

lemma length_ring_layers: "length (ring_layers w g gs) = 3"
  by (simp add: ring_layers_def Let_def)


subsection \<open>Bounds on \<open>pi\<close> and the start of the highlight\<close>

lemma cos_sum_10:
  fixes x :: real
  shows "(\<Sum>m<10. cos_coeff m * x ^ m) = 1 - x^2 / 2 + x^4 / 24 - x^6 / 720 + x^8 / 40320"
  by (simp add: lessThan_nat_numeral cos_coeff_def fact_numeral)

lemma cos_bounds_10:
  fixes x :: real
  assumes "0 \<le> x"
  shows "1 - x^2 / 2 + x^4 / 24 - x^6 / 720 + x^8 / 40320 - x^10 / 3628800 \<le> cos x"
    and "cos x \<le> 1 - x^2 / 2 + x^4 / 24 - x^6 / 720 + x^8 / 40320 + x^10 / 3628800"
proof -
  obtain t where t: "cos x = (\<Sum>m<10. cos_coeff m * x ^ m)
      + cos (t + 1 / 2 * real (10::nat) * pi) / fact 10 * x ^ 10"
    using Maclaurin_cos_expansion [of x 10] by blast
  define c where "c = cos (t + 1 / 2 * real (10::nat) * pi)"
  define e where "e = x ^ 10 / 3628800"
  have f: "fact 10 = (3628800 :: real)"
    by (simp add: fact_numeral)
  have b: "- 1 \<le> c" "c \<le> 1"
    by (simp_all add: c_def)
  have p: "0 \<le> e" using assms by (simp add: e_def)
  have eq: "cos x = 1 - x^2 / 2 + x^4 / 24 - x^6 / 720 + x^8 / 40320 + c * e"
    unfolding c_def e_def using t by (simp add: cos_sum_10 f)
  have lo: "- e \<le> c * e"
    using mult_right_mono [OF b(1) p] by simp
  have hi: "c * e \<le> e"
    using mult_right_mono [OF b(2) p] by simp
  show "1 - x^2 / 2 + x^4 / 24 - x^6 / 720 + x^8 / 40320 - x^10 / 3628800 \<le> cos x"
    using eq lo unfolding e_def by linarith
  show "cos x \<le> 1 - x^2 / 2 + x^4 / 24 - x^6 / 720 + x^8 / 40320 + x^10 / 3628800"
    using eq hi unfolding e_def by linarith
qed

lemma cos_157_pos: "0 < cos (157 / 100 :: real)"
proof -
  have "(0::real) < 1 - (157/100)^2 / 2 + (157/100)^4 / 24 - (157/100)^6 / 720
          + (157/100)^8 / 40320 - (157/100)^10 / 3628800"
    by (simp add: power_divide)
  then show ?thesis
    using cos_bounds_10(1) [of "157/100"] by simp
qed

lemma cos_15725_neg: "cos (15725 / 10000 :: real) < 0"
proof -
  have "1 - (15725/10000)^2 / 2 + (15725/10000)^4 / 24 - (15725/10000)^6 / 720
          + (15725/10000)^8 / 40320 + (15725/10000)^10 / 3628800 < (0::real)"
    by (simp add: power_divide)
  then show ?thesis
    using cos_bounds_10(2) [of "15725/10000"] by simp
qed

lemma pi_lower: "314 / 100 < pi"
proof (rule ccontr)
  assume "\<not> 314 / 100 < pi"
  then have "pi / 2 \<le> 157 / 100" by simp
  moreover have "(157 / 100 :: real) \<le> pi" using pi_ge_two by simp
  ultimately have "cos (157 / 100) \<le> cos (pi / 2)"
    by (intro cos_monotone_0_pi_le) simp_all
  then show False using cos_157_pos by simp
qed

lemma pi_upper: "pi < 3145 / 1000"
proof (rule ccontr)
  assume "\<not> pi < 3145 / 1000"
  then have "15725 / 10000 \<le> pi / 2" by simp
  then have "0 \<le> cos (15725 / 10000 :: real)"
    by (intro cos_ge_zero) simp_all
  then show False using cos_15725_neg by simp
qed

lemma int_of_double_2pi100: "int_of_double (2 * pi * 100) = 628"
proof -
  have "\<lfloor>2 * pi * 100\<rfloor> = 628"
    using pi_lower pi_upper by (intro floor_unique) simp_all
  then show ?thesis
    by (simp add: int_of_double_def)
qed

lemma c_mod_nonneg: "0 \<le> a \<Longrightarrow> 0 < b \<Longrightarrow> c_mod a b = a mod b"
  by (cases "a = 0") (simp_all add: c_mod_def c_div_def minus_mult_div_eq_mod)

lemma highlight_start_eq: "highlight_start w = real_of_int (int (w_rand w) mod 628) / 100"
  unfolding highlight_start_def int_of_double_2pi100 by (simp add: c_mod_nonneg)

lemma highlight_start_range: "0 \<le> highlight_start w \<and> highlight_start w < 2 * pi"
proof -
  have "int (w_rand w) mod 628 \<le> 627" by simp
  then have "real_of_int (int (w_rand w) mod 628) \<le> 627"
    by linarith
  then have "highlight_start w \<le> 627 / 100"
    by (simp add: highlight_start_eq)
  moreover have "0 \<le> highlight_start w"
    by (simp add: highlight_start_eq)
  ultimately show ?thesis
    using pi_lower by simp
qed

subsection \<open>The strokes of the indicator\<close>

lemma strokes_append: "strokes (xs @ ys) = strokes xs @ strokes ys"
  by (induction xs) (simp_all split: paint_op.splits)

lemma strokes_ring:
  "strokes (ring_layers w g gs) =
     [(rgb_source (ring_color_table (auth_state g) (unlock_state g)), 10,
       [Arc 95 95 90 0 (2 * pi)]),
      (rgb_source (NORD nord0), 2, [Arc 95 95 85 0 (2 * pi)])]"
  by (simp add: ring_layers_def Let_def)

lemma show_centered_strokes:
  "strokes (c_target (show_centered w t dy c)) = strokes (c_target c)"
  by (simp add: show_centered_target strokes_append)

lemma draw_text_strokes: "strokes (c_target (draw_text w g c)) = strokes (c_target c)"
  by (simp add: draw_text_eq Let_def show_centered_strokes cairo_set_font_size_def text_ctx_def
       split: option.splits)

lemma draw_highlight_strokes:
  "strokes (c_target (draw_highlight w g c)) =
     strokes (c_target c) @
     (if unlock_state g = STATE_KEY_ACTIVE \<or> unlock_state g = STATE_BACKSPACE_ACTIVE then
        [(rgb_source (if unlock_state g = STATE_KEY_ACTIVE then NORD nord7 else NORD nord11),
          gs_line_width (c_gstate c),
          filter drawing_elem (c_path c)
            @ [Arc 95 95 90 (highlight_start w) (highlight_start w + pi / 3)]),
         (rgb_source (NORD nord0), gs_line_width (c_gstate c),
          [Arc 95 95 90 (highlight_start w) (highlight_start w + pi / 128)]),
         (rgb_source (NORD nord0), gs_line_width (c_gstate c),
          [Arc 95 95 90 (highlight_start w + pi / 3 - pi / 128) (highlight_start w + pi / 3)])]
      else [])"
  by (simp add: draw_highlight_def Let_def strokes_append cairo_set_source_rgb_eq
       path_ops paint_ops button_consts)

lemma draw_image_strokes:
  "indicator_shown g \<Longrightarrow>
   strokes (f_output (draw_image w g res)) =
     [(rgb_source (ring_color_table (auth_state g) (unlock_state g)), 10,
       [Arc 95 95 90 0 (2 * pi)]),
      (rgb_source (NORD nord0), 2, [Arc 95 95 85 0 (2 * pi)])] @
     (if unlock_state g = STATE_KEY_ACTIVE \<or> unlock_state g = STATE_BACKSPACE_ACTIVE then
        [(rgb_source (if unlock_state g = STATE_KEY_ACTIVE then NORD nord7 else NORD nord11),
          10, [Arc 95 95 90 (highlight_start w) (highlight_start w + pi / 3)]),
         (rgb_source (NORD nord0), 10,
          [Arc 95 95 90 (highlight_start w) (highlight_start w + pi / 128)]),
         (rgb_source (NORD nord0), 10,
          [Arc 95 95 90 (highlight_start w + pi / 3 - pi / 128) (highlight_start w + pi / 3)])]
      else [])"
  by (simp add: f_output_draw_image draw_indicator_def draw_highlight_strokes draw_text_strokes
       draw_text_gstate draw_text_path draw_ring_target draw_ring_gstate draw_ring_path
       strokes_ring)


subsection \<open>Rounding of doubles\<close>

lemma pow2_powr: "pow2 e = 2 powr real_of_int e"
proof (cases "0 \<le> e")
  case True
  then have "real_of_int e = real (nat e)" by simp
  then have "2 powr real_of_int e = 2 ^ nat e"
    by (simp only: powr_realpow [of 2 "nat e", simplified])
  then show ?thesis
    using True by (simp add: pow2_def)
next
  case False
  then have "real_of_int e = - real (nat (- e))" by simp
  then have "2 powr real_of_int e = 1 / 2 powr real (nat (- e))"
    by (simp only: powr_minus_divide)
  also have "\<dots> = 1 / 2 ^ nat (- e)"
    by (simp only: powr_realpow [of 2 "nat (- e)", simplified])
  finally show ?thesis
    using False by (simp add: pow2_def)
qed

lemma pow2_pos: "0 < pow2 e"
  by (simp add: pow2_powr)

lemma pow2_mono: "a \<le> b \<Longrightarrow> pow2 a \<le> pow2 b"
  by (simp add: pow2_powr)

lemma pow2_le_one: "e \<le> 0 \<Longrightarrow> pow2 e \<le> 1"
  using pow2_mono [of e 0] by (simp add: pow2_def)

lemma exponent_up_below: "pow2 e \<le> x \<Longrightarrow> pow2 (exponent_up n x e) \<le> x"
  by (induction n arbitrary: e) simp_all

lemma exponent_down_le: "exponent_down n x e \<le> e"
proof (induction n arbitrary: e)
  case 0
  then show ?case by simp
next
  case (Suc n)
  have "exponent_down n x (e - 1) \<le> e - 1" by (rule Suc.IH)
  then show ?case by simp
qed

lemma exponent_up_numeral:
  "exponent_up (numeral k) x e =
     (if pow2 (e + 1) \<le> x then exponent_up (pred_numeral k) x (e + 1) else e)"
  by (simp add: numeral_eq_Suc)

lemma exponent_down_numeral:
  "exponent_down (numeral k) x e =
     (if pow2 e \<le> x then e else exponent_down (pred_numeral k) x (e - 1))"
  by (simp add: numeral_eq_Suc)

lemma round_to_even_nonneg: "0 \<le> y \<Longrightarrow> 0 \<le> round_to_even y"
  by (simp add: round_to_even_def)

lemma round_to_even_le: "real_of_int (round_to_even y) \<le> y + 1"
proof -
  have f: "real_of_int \<lfloor>y\<rfloor> \<le> y"
    by (rule of_int_floor_le)
  have a: "real_of_int \<lfloor>y\<rfloor> \<le> y + 1"
    using f by linarith
  have b: "real_of_int (\<lfloor>y\<rfloor> + 1) \<le> y + 1"
    using f by simp
  show ?thesis
    unfolding round_to_even_def using a b by (simp only: split: if_split) blast
qed

lemma round_double_nonneg: "0 \<le> x \<Longrightarrow> 0 \<le> round_double x"
  using pow2_pos [of "double_exponent \<bar>x\<bar> - 52"]
  by (simp add: round_double_def round_to_even_nonneg)

lemma quantum_le:
  assumes "0 < x"
  shows "pow2 (double_exponent x - 52) \<le> x + 1"
proof (cases "1 \<le> x")
  case True
  then have "pow2 0 \<le> x" by (simp add: pow2_def)
  then have "pow2 (exponent_up 1023 x 0) \<le> x"
    by (rule exponent_up_below)
  moreover have "pow2 (exponent_up 1023 x 0 - 52) \<le> pow2 (exponent_up 1023 x 0)"
    by (rule pow2_mono) simp
  ultimately show ?thesis
    using True by (simp add: double_exponent_def)
next
  case False
  have "exponent_down 1021 x (- 1) \<le> - 1"
    by (rule exponent_down_le)
  then have "pow2 (exponent_down 1021 x (- 1) - 52) \<le> 1"
    by (intro pow2_le_one) simp
  then show ?thesis
    using False assms by (simp add: double_exponent_def)
qed

lemma round_double_le:
  assumes "0 \<le> x"
  shows "round_double x \<le> 2 * x + 1"
proof (cases "x = 0")
  case True
  then show ?thesis by (simp add: round_double_def)
next
  case False
  with assms have pos: "0 < x" by simp
  define q where "q = pow2 (double_exponent x - 52)"
  have q: "0 < q" by (simp add: q_def pow2_pos)
  have "real_of_int (round_to_even (x / q)) * q \<le> (x / q + 1) * q"
    using round_to_even_le [of "x / q"] q by (intro mult_right_mono) simp_all
  also have "\<dots> = x + q"
    using q by (simp add: field_simps)
  also have "\<dots> \<le> x + (x + 1)"
    using quantum_le [OF pos] by (simp add: q_def)
  finally have "real_of_int (round_to_even (x / q)) * q \<le> 2 * x + 1"
    by simp
  then show ?thesis
    using pos by (simp add: round_double_def q_def)
qed

lemmas round_double_eval = round_double_def double_exponent_def exponent_up_numeral
  exponent_down_numeral pow2_def round_to_even_def

lemma sample_sizes_100:
  "button_diameter_physical (sample_world\<lparr>w_dpi_value := 100\<rparr>) = 198"
  "clock_width_physical (sample_world\<lparr>w_dpi_value := 100\<rparr>) = 251"
  "clock_height_physical (sample_world\<lparr>w_dpi_value := 100\<rparr>) = 88"
  "margin_physical (sample_world\<lparr>w_dpi_value := 100\<rparr>) = 25"
  by (simp_all add: button_diameter_physical_def clock_width_physical_def
        clock_height_physical_def margin_physical_def scaling_factor_def round_double_eval
        button_consts CLOCK_WIDTH_def CLOCK_HEIGHT_def CLOCK_MARGIN_def ceiling_eq_iff)

lemma sample_sizes:
  "scaling_factor sample_world = 1"
  "button_diameter_physical sample_world = 190"
  "clock_width_physical sample_world = 240"
  "clock_height_physical sample_world = 84"
  "margin_physical sample_world = 24"
  by (simp_all add: button_diameter_physical_def clock_width_physical_def
        clock_height_physical_def margin_physical_def scaling_factor_def sample_world_def
        round_double_eval button_consts CLOCK_WIDTH_def CLOCK_HEIGHT_def CLOCK_MARGIN_def)


subsection \<open>The composition\<close>

lemma blits_append: "blits (xs @ ys) = blits xs @ blits ys"
  by (induction xs) (simp_all split: source_t.splits)

lemma draw_background_blits:
  "c_path c = [] \<Longrightarrow> blits (c_target (draw_background g res c)) = blits (c_target c)"
  by (simp add: draw_background_def Let_def blits_append cairo_set_source_rgb_def
       cairo_set_source_surface_def cairo_pattern_set_extend_def path_ops paint_ops
       split: option.splits)

lemma draw_background_path:
  "c_path c = [] \<Longrightarrow> c_path (draw_background g res c) = []"
  by (simp add: draw_background_def Let_def cairo_set_source_rgb_def
       cairo_set_source_surface_def cairo_pattern_set_extend_def path_ops paint_ops
       split: option.splits)

lemma composite_at_blits:
  "c_path c = [] \<Longrightarrow>
   blits (c_target (composite_at w p p2 c)) = blits (c_target c) @ blit_pair w (p, p2)"
  by (cases p; cases p2)
     (simp add: composite_at_def Let_def blits_append blit_pair_def cairo_set_source_surface_def
        path_ops paint_ops)

lemma composite_at_path: "c_path (composite_at w p p2 c) = []"
  by (cases p; cases p2)
     (simp add: composite_at_def Let_def cairo_set_source_surface_def path_ops paint_ops)

lemma fold_composite_at:
  "c_path c = [] \<Longrightarrow>
   blits (c_target (fold (\<lambda>r c. composite_at w (f r) (h r) c) rs c))
     = blits (c_target c) @ concat (map (\<lambda>r. blit_pair w (f r, h r)) rs) \<and>
   c_path (fold (\<lambda>r c. composite_at w (f r) (h r) c) rs c) = []"
proof (induction rs arbitrary: c)
  case Nil
  then show ?case by simp
next
  case (Cons r rs)
  have "c_path (composite_at w (f r) (h r) c) = []"
    by (rule composite_at_path)
  from Cons.IH [OF this] show ?case
    using Cons.prems by (simp add: composite_at_blits)
qed

lemma fold_indices:
  "fold (\<lambda>i c. F (xs ! i) c) [0 ..< length xs] c = fold F xs c"
proof -
  have "fold F (map (\<lambda>i. xs ! i) [0 ..< length xs]) c
          = fold (F \<circ> (\<lambda>i. xs ! i)) [0 ..< length xs] c"
    by (simp only: fold_map)
  then show ?thesis
    by (simp add: map_nth comp_def)
qed

lemma composite_blits:
  assumes "xr_screens g = int (length (xr_resolutions g))" and "c_path c = []"
  shows "blits (c_target (composite w g c))
           = blits (c_target c) @ concat (map (\<lambda>r. blit_pair w (placement w g r)) (monitors g))"
proof (cases "xr_screens g > 0")
  case True
  have "fold (\<lambda>screen xcb_ctx.
            composite_at w (indicator_position w (xr_resolutions g ! screen))
              (clock_position w (xr_resolutions g ! screen)) xcb_ctx)
          [0 ..< length (xr_resolutions g)] c
        = fold (\<lambda>r c. composite_at w (indicator_position w r) (clock_position w r) c)
            (xr_resolutions g) c"
    by (rule fold_indices)
  then show ?thesis
    using True assms fold_composite_at [of c w "indicator_position w" "clock_position w"]
    by (simp add: composite_def monitors_def placement_def)
next
  case False
  then show ?thesis
    using assms by (simp add: composite_def monitors_def placement_def composite_at_blits)
qed

lemma draw_image_blits:
  assumes "xr_screens g = int (length (xr_resolutions g))"
  shows "blits (f_xcb_output (draw_image w g res))
           = concat (map (\<lambda>r. blit_pair w (placement w g r)) (monitors g))"
proof -
  have "c_path (draw_background g res (cairo_create [])) = []"
    by (simp add: draw_background_path)
  then show ?thesis
    using assms by (simp add: draw_image_def Let_def composite_blits draw_background_blits)
qed

lemma c_div_2: "0 \<le> a \<Longrightarrow> c_div a 2 = a div 2"
  by (cases "a = 0") (simp_all add: c_div_def)

lemma half_bounds:
  fixes a :: int
  shows "real_of_int a / 2 - 1 / 2 \<le> real_of_int (a div 2)"
    and "real_of_int (a div 2) \<le> real_of_int a / 2"
proof -
  have "a = 2 * (a div 2) + a mod 2" by simp
  moreover have "0 \<le> a mod 2" "a mod 2 \<le> 1" by simp_all
  ultimately have "2 * (a div 2) \<le> a" "a \<le> 2 * (a div 2) + 1" by linarith+
  then have "2 * real_of_int (a div 2) \<le> real_of_int a"
    "real_of_int a \<le> 2 * real_of_int (a div 2) + 1"
    by linarith+
  then show "real_of_int a / 2 - 1 / 2 \<le> real_of_int (a div 2)"
    and "real_of_int (a div 2) \<le> real_of_int a / 2"
    by simp_all
qed

lemma centre_offset:
  fixes a d :: int
  shows "\<bar>(real_of_int (x + (a div 2 - d div 2)) + real_of_int d / 2)
           - (real_of_int x + real_of_int a / 2)\<bar> \<le> 1"
  using half_bounds [of a] half_bounds [of d] by simp

lemma scaled_size_bounds:
  assumes "0 \<le> w_dpi_value w" and "w_dpi_value w < 2 ^ 16" and "0 \<le> n" and "n \<le> 240"
  shows "0 \<le> \<lceil>round_double (scaling_factor w * real_of_int n)\<rceil>"
    and "\<lceil>round_double (scaling_factor w * real_of_int n)\<rceil> \<le> 2 ^ 21"
proof -
  have c0: "0 \<le> round_double (real_of_int (w_dpi_value w))"
    using assms(1) by (intro round_double_nonneg) simp
  have "round_double (real_of_int (w_dpi_value w)) \<le> 2 * real_of_int (w_dpi_value w) + 1"
    using assms(1) by (intro round_double_le) simp
  moreover have "real_of_int (w_dpi_value w) \<le> 65536"
    using assms(2) by simp
  ultimately have c1: "round_double (real_of_int (w_dpi_value w)) \<le> 131073"
    by linarith
  have d: "0 \<le> round_double (real_of_int (w_dpi_value w)) / 96"
    "round_double (real_of_int (w_dpi_value w)) / 96 \<le> 1366"
    using c0 c1 by simp_all
  have s0: "0 \<le> scaling_factor w"
    unfolding scaling_factor_def using d(1) by (rule round_double_nonneg)
  have "scaling_factor w \<le> 2 * (round_double (real_of_int (w_dpi_value w)) / 96) + 1"
    unfolding scaling_factor_def using d(1) by (rule round_double_le)
  then have s1: "scaling_factor w \<le> 2733"
    using d(2) by linarith
  have n: "0 \<le> real_of_int n" "real_of_int n \<le> 240"
    using assms(3,4) by simp_all
  have p0: "0 \<le> scaling_factor w * real_of_int n"
    using s0 n(1) by simp
  have "scaling_factor w * real_of_int n \<le> 2733 * 240"
    using s0 s1 n by (intro mult_mono) simp_all
  then have p1: "scaling_factor w * real_of_int n \<le> 655920"
    by simp
  have r0: "0 \<le> round_double (scaling_factor w * real_of_int n)"
    using p0 by (rule round_double_nonneg)
  have "round_double (scaling_factor w * real_of_int n)
          \<le> 2 * (scaling_factor w * real_of_int n) + 1"
    using p0 by (rule round_double_le)
  then have r1: "round_double (scaling_factor w * real_of_int n) \<le> 2097152"
    using p1 by linarith
  show "0 \<le> \<lceil>round_double (scaling_factor w * real_of_int n)\<rceil>"
    using r0 by simp
  have "\<lceil>round_double (scaling_factor w * real_of_int n)\<rceil> \<le> 2097152"
    using r1 by (simp add: ceiling_le_iff)
  then show "\<lceil>round_double (scaling_factor w * real_of_int n)\<rceil> \<le> 2 ^ 21"
    by simp
qed

lemma sizes_nonneg:
  assumes "0 \<le> w_dpi_value w" and "w_dpi_value w < 2 ^ 16"
  shows "0 \<le> button_diameter_physical w" "0 \<le> clock_width_physical w"
    "0 \<le> clock_height_physical w" "0 \<le> margin_physical w"
  unfolding button_diameter_physical_def clock_width_physical_def clock_height_physical_def
    margin_physical_def
  by (rule scaled_size_bounds(1) [OF assms];
      simp add: button_consts CLOCK_WIDTH_def CLOCK_HEIGHT_def CLOCK_MARGIN_def)+

lemma sizes_bounded:
  assumes "0 \<le> w_dpi_value w" and "w_dpi_value w < 2 ^ 16"
  shows "button_diameter_physical w \<le> 2 ^ 21" "clock_width_physical w \<le> 2 ^ 21"
    "clock_height_physical w \<le> 2 ^ 21" "margin_physical w \<le> 2 ^ 21"
  unfolding button_diameter_physical_def clock_width_physical_def clock_height_physical_def
    margin_physical_def
  by (rule scaled_size_bounds(2) [OF assms];
      simp add: button_consts CLOCK_WIDTH_def CLOCK_HEIGHT_def CLOCK_MARGIN_def)+

lemma sint_sub_of_int:
  fixes a :: "32 word"
  assumes "- (2 ^ 31) \<le> uint a - k" and "uint a - k < 2 ^ 31"
  shows "sint (a - word_of_int k) = uint a - k"
proof -
  have "a - word_of_int k = word_of_int (uint a - k)"
    by simp
  then have "sint (a - word_of_int k) = signed_take_bit (LENGTH(32) - 1) (uint a - k)"
    by (simp only: sint_sbintrunc')
  then show ?thesis
    using assms by (simp add: signed_take_bit_int_eq_self)
qed


lemma indicator_position_centred:
  assumes "0 \<le> rect_width r" "0 \<le> rect_height r"
    and "0 \<le> w_dpi_value w" "w_dpi_value w < 2 ^ 16"
  shows "centred w r (indicator_position w r)"
  using assms sizes_nonneg(1) [of w]
    centre_offset [of "rect_x r" "rect_width r" "button_diameter_physical w"]
    centre_offset [of "rect_y r" "rect_height r" "button_diameter_physical w"]
  by (simp add: centred_def indicator_position_def c_div_2)

lemma clock_position_inset: "inset w r (clock_position w r)"
  by (simp add: inset_def clock_position_def)

lemma fallback_indicator_coordinate:
  fixes a :: "32 word"
  assumes "0 \<le> d" "d \<le> 2 ^ 21"
  shows "sint (a div 2 - word_of_int (c_div d 2)) = uint a div 2 - d div 2"
proof -
  have "uint a < 2 ^ 32"
    using uint_bounded [of a] by simp
  then have hi: "uint (a div 2) < 2147483648"
    by (simp add: uint_div)
  have lo: "0 \<le> uint (a div 2)"
    by (rule uint_nonnegative)
  have d2: "0 \<le> d div 2" "d div 2 \<le> 2097152"
    using assms by simp_all
  have "- 2147483648 \<le> uint (a div 2) - d div 2" "uint (a div 2) - d div 2 < 2147483648"
    using hi lo d2 by linarith+
  then have "sint (a div 2 - word_of_int (d div 2)) = uint (a div 2) - d div 2"
    by (intro sint_sub_of_int) simp_all
  then show ?thesis
    using assms by (simp add: c_div_2 uint_div)
qed

lemma fallback_clock_coordinate:
  fixes a :: "32 word"
  assumes "uint a < 2 ^ 31" "0 \<le> c" "c \<le> 2 ^ 21" "0 \<le> m" "m \<le> 2 ^ 21"
  shows "sint (a - word_of_int c - word_of_int m) = uint a - c - m"
proof -
  have lo: "0 \<le> uint a"
    by (rule uint_nonnegative)
  have b: "uint a < 2147483648" "c \<le> 2097152" "m \<le> 2097152"
    using assms by simp_all
  have "- 2147483648 \<le> uint a - (c + m)" "uint a - (c + m) < 2147483648"
    using lo b assms(2,4) by linarith+
  then have "sint (a - word_of_int (c + m)) = uint a - (c + m)"
    by (intro sint_sub_of_int) simp_all
  then show ?thesis
    by (simp add: algebra_simps)
qed

lemma fallback_centred:
  assumes "0 \<le> w_dpi_value w" "w_dpi_value w < 2 ^ 16"
  shows "centred w \<lparr>rect_x = 0, rect_y = 0, rect_width = uint (fst (last_resolution g)),
                     rect_height = uint (snd (last_resolution g))\<rparr>
           (fallback_indicator_position w g)"
  using sizes_nonneg(1) [OF assms] sizes_bounded(1) [OF assms]
    centre_offset [of 0 "uint (fst (last_resolution g))" "button_diameter_physical w"]
    centre_offset [of 0 "uint (snd (last_resolution g))" "button_diameter_physical w"]
  by (simp add: centred_def fallback_indicator_position_def fallback_indicator_coordinate)

lemma fallback_inset:
  assumes "0 \<le> w_dpi_value w" "w_dpi_value w < 2 ^ 16"
    and "uint (fst (last_resolution g)) < 2 ^ 31" "uint (snd (last_resolution g)) < 2 ^ 31"
  shows "inset w \<lparr>rect_x = 0, rect_y = 0, rect_width = uint (fst (last_resolution g)),
                   rect_height = uint (snd (last_resolution g))\<rparr>
           (fallback_clock_position w g)"
  using sizes_nonneg [OF assms(1,2)] sizes_bounded [OF assms(1,2)] assms(3,4)
  by (simp add: inset_def fallback_clock_position_def fallback_clock_coordinate)


subsection \<open>The background pixmap\<close>

lemma paint_pixmap_generated: "x_generated (paint_pixmap pid ls xs) = x_generated xs"
  by (simp add: paint_pixmap_def split: option.splits)

lemma xcb_clear_area_generated: "x_generated (xcb_clear_area xs) = x_generated xs"
  by (simp add: xcb_clear_area_def split: option.splits)

lemma xcb_clear_area_pixmaps: "x_pixmaps (xcb_clear_area xs) = x_pixmaps xs"
  by (simp add: xcb_clear_area_def split: option.splits)

lemma redraw_screen_reuse:
  assumes "bg_pixmap g \<noteq> XCB_NONE"
  shows "fst (redraw_screen w (g, xs)) = g"
    and "x_generated (snd (redraw_screen w (g, xs))) = x_generated xs"
    and "x_pixmaps (snd (redraw_screen w (g, xs)))
           = x_pixmaps (paint_pixmap (bg_pixmap g)
               (f_xcb_output (draw_image w g (last_resolution g))) xs)"
  using assms
  by (simp_all add: redraw_screen_def Let_def xcb_clear_area_generated xcb_clear_area_pixmaps
        paint_pixmap_generated xcb_change_back_pixmap_def)

lemma redraw_screen_allocate:
  assumes "bg_pixmap g = XCB_NONE"
  shows "fst (redraw_screen w (g, xs)) = g\<lparr>bg_pixmap := Suc (x_generated xs)\<rparr>"
    and "x_generated (snd (redraw_screen w (g, xs))) = Suc (x_generated xs)"
    and "x_pixmaps (snd (redraw_screen w (g, xs))) (Suc (x_generated xs))
           = Some \<lparr>px_size = last_resolution g,
                   px_content = f_xcb_output (draw_image w (g\<lparr>bg_pixmap := Suc (x_generated xs)\<rparr>)
                                  (last_resolution g))\<rparr>"
  using assms
  by (simp_all add: redraw_screen_def Let_def create_bg_pixmap_def xcb_clear_area_generated
        xcb_clear_area_pixmaps paint_pixmap_def xcb_change_back_pixmap_def)

lemma step_keeps_pixmap:
  assumes "e \<noteq> FreeBgPixmap" and "bg_pixmap (fst s) \<noteq> XCB_NONE"
  shows "bg_pixmap (fst (step e s)) = bg_pixmap (fst s) \<and>
         x_generated (snd (step e s)) = x_generated (snd s)"
proof (cases s)
  case (Pair g xs)
  show ?thesis
  proof (cases e)
    case (Redraw w)
    with Pair assms show ?thesis
      by (simp add: redraw_screen_reuse)
  next
    case FreeBgPixmap
    with assms show ?thesis by simp
  next
    case (ClearIndicator w)
    with Pair assms show ?thesis
      by (simp add: clear_indicator_def Let_def redraw_screen_reuse)
  next
    case (External f)
    with Pair show ?thesis by simp
  qed
qed

lemma run_keeps_pixmap:
  assumes "FreeBgPixmap \<notin> set es" and "bg_pixmap (fst s) \<noteq> XCB_NONE"
  shows "bg_pixmap (fst (run es s)) = bg_pixmap (fst s) \<and>
         x_generated (snd (run es s)) = x_generated (snd s)"
  using assms
proof (induction es arbitrary: s)
  case Nil
  then show ?case by (simp add: run_def)
next
  case (Cons e es)
  then have e: "e \<noteq> FreeBgPixmap" and es: "FreeBgPixmap \<notin> set es"
    by auto
  have k: "bg_pixmap (fst (step e s)) = bg_pixmap (fst s) \<and>
           x_generated (snd (step e s)) = x_generated (snd s)"
    using step_keeps_pixmap [OF e Cons.prems(2)] .
  then have "bg_pixmap (fst (step e s)) \<noteq> XCB_NONE"
    using Cons.prems(2) by simp
  from Cons.IH [OF es this] k show ?case
    by (simp add: run_def)
qed


subsection \<open>Transparent buffers\<close>

lemma over_transparent: "over transparent d = d"
  by (cases d) (simp add: over_def transparent_def)

lemma scale_transparent: "scale_rgba k transparent = transparent"
  by (simp add: scale_rgba_def transparent_def)

lemma render_Nil: "render coverage surf base [] p = base p"
  by (simp add: render_def)

lemma sample_empty_buffer: "sample_image (buffer_image coverage wd ht []) e p = transparent"
  by (cases e) (simp_all add: sample_image_def buffer_image_def render_Nil)

lemma foldl_over_filter:
  assumes "\<forall>l \<in> set ls. Q l \<longrightarrow> f l = transparent"
  shows "foldl (\<lambda>d l. over (f l) d) d0 ls
           = foldl (\<lambda>d l. over (f l) d) d0 (filter (\<lambda>l. \<not> Q l) ls)"
  using assms
proof (induction ls arbitrary: d0)
  case Nil
  then show ?case by simp
next
  case (Cons l ls)
  then show ?case
    by (cases "Q l") (simp_all add: over_transparent)
qed

lemma render_without:
  assumes "\<forall>l \<in> set ls. painted_from s l \<longrightarrow> layer_pixel coverage surf l p = transparent"
  shows "render coverage surf base ls p
           = render coverage surf base (filter (\<lambda>l. \<not> painted_from s l) ls) p"
  unfolding render_def using assms by (rule foldl_over_filter)

lemma layer_from_empty_buffer:
  assumes "painted_from s l" and "surf s = buffer_image coverage wd ht []"
  shows "layer_pixel coverage surf l p = transparent"
  using assms
  by (cases "gs_source (l_gstate l)")
     (simp_all add: painted_from_def layer_pixel_def source_pixel_def sample_empty_buffer
        scale_transparent)

lemma f_clock_output_hidden: "\<not> clock_visible g \<Longrightarrow> f_clock_output (draw_image w g res) = []"
  by (simp add: draw_image_def Let_def draw_clock_def)

lemma foldl_over_transparent:
  "\<forall>l \<in> set ls. f l = transparent \<Longrightarrow> foldl (\<lambda>d l. over (f l) d) d0 ls = d0"
  by (induction ls arbitrary: d0) (simp_all add: over_transparent)

lemma render_append_transparent:
  assumes "\<forall>l \<in> set bs. layer_pixel coverage surf l p = transparent"
  shows "render coverage surf base (as @ bs) p = render coverage surf base as p"
  unfolding render_def using assms by (simp add: foldl_over_transparent)

lemma render_opaque_first:
  assumes "coverage l p = 1" and "gs_source (l_gstate l) = SourceRGB r g b"
  shows "render coverage surf base (l # ls) p = render coverage surf (\<lambda>q. (r, g, b, 1)) ls p"
  using assms
  by (simp add: render_def layer_pixel_def source_pixel_def scale_rgba_def over_def
        split: prod.splits)

text \<open>The layers of the composition are painted from the two buffers.\<close>

lemma composite_at_target:
  "\<exists>l1 l2. c_target (composite_at w p p2 c) = c_target c @ [l1, l2] \<and>
     painted_from OUTPUT l1 \<and> painted_from CLOCK_OUTPUT l2"
  by (cases p; cases p2)
     (simp add: composite_at_def Let_def cairo_set_source_surface_def path_ops paint_ops
        painted_from_def)

lemma fold_composite_at_target:
  "\<exists>ls. c_target (fold (\<lambda>r c. composite_at w (f r) (h r) c) rs c) = c_target c @ ls \<and>
     (\<forall>l \<in> set ls. painted_from OUTPUT l \<or> painted_from CLOCK_OUTPUT l)"
proof (induction rs arbitrary: c)
  case Nil
  then show ?case by simp
next
  case (Cons r rs)
  obtain l1 l2 where a: "c_target (composite_at w (f r) (h r) c) = c_target c @ [l1, l2]"
    "painted_from OUTPUT l1" "painted_from CLOCK_OUTPUT l2"
    using composite_at_target by blast
  obtain ls where b:
    "c_target (fold (\<lambda>r c. composite_at w (f r) (h r) c) rs (composite_at w (f r) (h r) c))
       = c_target (composite_at w (f r) (h r) c) @ ls"
    "\<forall>l \<in> set ls. painted_from OUTPUT l \<or> painted_from CLOCK_OUTPUT l"
    using Cons.IH by blast
  have "c_target (fold (\<lambda>r c. composite_at w (f r) (h r) c) (r # rs) c)
          = c_target c @ ([l1, l2] @ ls)"
    using a(1) b(1) by simp
  moreover have "\<forall>l \<in> set ([l1, l2] @ ls). painted_from OUTPUT l \<or> painted_from CLOCK_OUTPUT l"
    using a(2,3) b(2) by auto
  ultimately show ?case by blast
qed

lemma composite_target:
  "\<exists>ls. c_target (composite w g c) = c_target c @ ls \<and>
     (\<forall>l \<in> set ls. painted_from OUTPUT l \<or> painted_from CLOCK_OUTPUT l)"
proof (cases "xr_screens g > 0")
  case True
  then show ?thesis
    using fold_composite_at_target
      [of w "\<lambda>i. indicator_position w (xr_resolutions g ! i)"
         "\<lambda>i. clock_position w (xr_resolutions g ! i)" "[0 ..< nat (xr_screens g)]" c]
    by (simp add: composite_def)
next
  case False
  obtain l1 l2 where
    "c_target (composite_at w (fallback_indicator_position w g) (fallback_clock_position w g) c)
       = c_target c @ [l1, l2]"
    "painted_from OUTPUT l1" "painted_from CLOCK_OUTPUT l2"
    using composite_at_target by blast
  then have "c_target (composite w g c) = c_target c @ [l1, l2] \<and>
      (\<forall>l \<in> set [l1, l2]. painted_from OUTPUT l \<or> painted_from CLOCK_OUTPUT l)"
    using False by (simp add: composite_def)
  then show ?thesis by blast
qed

lemma f_xcb_output_draw_image:
  "\<exists>ls. f_xcb_output (draw_image w g res)
          = c_target (draw_background g res (cairo_create [])) @ ls \<and>
        (\<forall>l \<in> set ls. painted_from OUTPUT l \<or> painted_from CLOCK_OUTPUT l)"
  using composite_target [of w g "draw_background g res (cairo_create [])"]
  by (simp add: draw_image_def Let_def)

lemma draw_background_target:
  "\<exists>ls. c_target (draw_background g res (cairo_create [])) = background_fill g res # ls"
  by (simp add: draw_background_def Let_def background_fill_def cairo_set_source_rgb_def
        cairo_set_source_surface_def cairo_pattern_set_extend_def path_ops paint_ops
        cairo_create_def split: option.splits)

lemma f_xcb_output_first:
  "\<exists>ls. f_xcb_output (draw_image w g res) = background_fill g res # ls"
proof -
  obtain a where a: "c_target (draw_background g res (cairo_create [])) = background_fill g res # a"
    using draw_background_target by blast
  obtain b where "f_xcb_output (draw_image w g res)
      = c_target (draw_background g res (cairo_create [])) @ b"
    using f_xcb_output_draw_image by blast
  with a have "f_xcb_output (draw_image w g res) = background_fill g res # (a @ b)"
    by simp
  then show ?thesis by blast
qed

lemma pixmap_image_opaque:
  assumes "coverage (background_fill g res) p = 1"
  shows "pixmap_image coverage w g prev (draw_image w g res) p
           = pixmap_image coverage w g prev' (draw_image w g res) p"
proof -
  obtain ls where ls: "f_xcb_output (draw_image w g res) = background_fill g res # ls"
    using f_xcb_output_first by blast
  have src: "gs_source (l_gstate (background_fill g res))
      = SourceRGB (real_of_int (rgb16 g 0) / 255) (real_of_int (rgb16 g 1) / 255)
          (real_of_int (rgb16 g 2) / 255)"
    by (simp add: background_fill_def)
  show ?thesis
    unfolding pixmap_image_def ls
    by (simp only: render_opaque_first [of coverage "background_fill g res" p, OF assms src])
qed

lemma sample_background:
  "c_target (draw_background sample_hidden (1920, 1080) (cairo_create []))
     = [background_fill sample_hidden (1920, 1080)]"
  "gs_source (l_gstate (background_fill sample_hidden (1920, 1080))) = SourceRGB 1 1 1"
  by (simp_all add: draw_background_def Let_def background_fill_def cairo_set_source_rgb_def
        path_ops paint_ops cairo_create_def sample_hidden_def sample_globals_def rgb16_def
        strgroups_def color_at_def c_string_def strtol16_def hex_digit_def)


subsection \<open>The texts of the clock\<close>

lemma target_unchanged:
  "c_target (cairo_scale sx sy c) = c_target c"
  "c_target (cairo_set_line_width lw c) = c_target c"
  "c_target (cairo_set_source_rgb col c) = c_target c"
  "c_target (cairo_set_source_surface s x y c) = c_target c"
  "c_target (cairo_select_font_face f c) = c_target c"
  "c_target (cairo_set_font_size sz c) = c_target c"
  "c_target (cairo_arc xc yc r a1 a2 c) = c_target c"
  "c_target (cairo_rectangle x y wd ht c) = c_target c"
  "c_target (cairo_move_to x y c) = c_target c"
  "c_target (cairo_rel_line_to dx dy c) = c_target c"
  "c_target (cairo_close_path c) = c_target c"
  "c_target (cairo_new_sub_path c) = c_target c"
  by (simp_all add: gstate_ops path_ops cairo_set_source_rgb_eq Let_def
        split: option.splits prod.splits)

lemma texts_painted:
  "shown_texts (c_target (cairo_fill_preserve c)) = shown_texts (c_target c)"
  "shown_texts (c_target (cairo_fill c)) = shown_texts (c_target c)"
  "shown_texts (c_target (cairo_stroke c)) = shown_texts (c_target c)"
  "shown_texts (c_target (cairo_paint c)) = shown_texts (c_target c)"
  "map fst (shown_texts (c_target (cairo_show_text fm s c)))
     = map fst (shown_texts (c_target c)) @ (if s = [] then [] else [s])"
  by (simp_all add: paint_ops path_ops shown_texts_append Let_def
        split: option.splits prod.splits)

lemma draw_clock_texts:
  "clock_visible g \<Longrightarrow>
   map fst (shown_texts (c_target (draw_clock w g c))) =
     map fst (shown_texts (c_target c))
     @ (if strftime w 8 ''%H:%M'' (w_localtime w) = [] then []
        else [strftime w 8 ''%H:%M'' (w_localtime w)])
     @ (if strftime w 32 ''%a, %B %d'' (w_localtime w) = [] then []
        else [strftime w 32 ''%a, %B %d'' (w_localtime w)])"
  by (simp add: draw_clock_def Let_def target_unchanged texts_painted)

lemma f_clock_output_draw_image:
  "f_clock_output (draw_image w g res) = c_target (draw_clock w g (cairo_create []))"
  by (simp add: draw_image_def Let_def)

lemma sample_digits:
  "digits 9 = ''9''" "digits 30 = ''30''" "digits 31 = ''31''" "digits 5 = ''5''"
  by code_simp+

lemma sample_time_texts:
  "strftime sample_world 8 ''%H:%M'' (w_localtime sample_world) = ''09:30''"
  "strftime sample_world 32 ''%a, %B %d'' (w_localtime sample_world) = ''Day, Month 05''"
  "strftime (sample_world\<lparr>w_localtime := (w_localtime sample_world)\<lparr>tm_min := 31\<rparr>\<rparr>) 8
     ''%H:%M'' ((w_localtime sample_world)\<lparr>tm_min := 31\<rparr>) = ''09:31''"
  "strftime (sample_world\<lparr>w_localtime := (w_localtime sample_world)\<lparr>tm_min := 31\<rparr>\<rparr>) 32
     ''%a, %B %d'' ((w_localtime sample_world)\<lparr>tm_min := 31\<rparr>) = ''Day, Month 05''"
  by (simp_all add: strftime_def sample_world_def sample_strftime_def pad2_def format_d_def
        sample_digits)


subsection \<open>C1: when the ring is drawn\<close>

text \<open>
  Claim C1. With the unlock indicator enabled, the ring (disk, stroked ring, separator
  and text) is drawn into the indicator buffer if and only if the input state is not
  \<open>STATE_STARTED\<close> or the authentication state is not \<open>STATE_AUTH_IDLE\<close>. When it is
  drawn, the first three layers of the buffer are the disk, the stroked ring and the
  separator, and the texts shown on the buffer are the ones the state selects;
  otherwise nothing at all is painted on the buffer, and no text is shown.
\<close>

theorem ring_drawn_iff:
  assumes "unlock_indicator g"
  shows "(ring_present (f_output (draw_image w g res)) \<longleftrightarrow>
            (unlock_state g \<noteq> STATE_STARTED \<or> auth_state g \<noteq> STATE_AUTH_IDLE)) \<and>
         (f_output (draw_image w g res) = [] \<longleftrightarrow>
            \<not> (unlock_state g \<noteq> STATE_STARTED \<or> auth_state g \<noteq> STATE_AUTH_IDLE)) \<and>
         take 3 (f_output (draw_image w g res))
           = (if unlock_state g \<noteq> STATE_STARTED \<or> auth_state g \<noteq> STATE_AUTH_IDLE
              then ring_layers w g (c_gstate (cairo_create [])) else []) \<and>
         map fst (shown_texts (f_output (draw_image w g res)))
           = (if unlock_state g \<noteq> STATE_STARTED \<or> auth_state g \<noteq> STATE_AUTH_IDLE
              then ring_texts g else [])"
proof (cases "indicator_shown g")
  case True
  then obtain ls where
    ls: "f_output (draw_image w g res) = ring_layers w g (c_gstate (cairo_create [])) @ ls"
    using f_output_shown by blast
  have "ring_layers w g (c_gstate (cairo_create [])) @ ls \<noteq> []"
    by (simp add: ring_layers_def Let_def)
  moreover have "map fst (shown_texts (f_output (draw_image w g res))) = ring_texts g"
    using True by (simp add: ring_texts_shown)
  moreover have "unlock_state g \<noteq> STATE_STARTED \<or> auth_state g \<noteq> STATE_AUTH_IDLE"
    using True by (simp add: indicator_shown_iff)
  ultimately show ?thesis
    unfolding ls by (simp add: ring_present_layers length_ring_layers)
next
  case False
  then have "f_output (draw_image w g res) = []"
    by (rule f_output_hidden)
  moreover have "\<not> (unlock_state g \<noteq> STATE_STARTED \<or> auth_state g \<noteq> STATE_AUTH_IDLE)"
    using False assms by (simp add: indicator_shown_iff)
  ultimately show ?thesis
    by (simp add: ring_present_def)
qed

theorem ring_drawn_iff_witness:
  "unlock_indicator sample_globals \<and>
   ring_present (f_output (draw_image sample_world sample_globals (1920, 1080))) \<and>
   map (\<lambda>l. (l_op l, l_path l))
     (take 3 (f_output (draw_image sample_world sample_globals (1920, 1080))))
     = [(Fill, [Arc 95 95 90 0 (2 * pi)]), (Stroke, [Arc 95 95 90 0 (2 * pi)]),
        (Stroke, [Arc 95 95 85 0 (2 * pi)])] \<and>
   map fst (shown_texts (f_output (draw_image sample_world sample_globals (1920, 1080))))
     = [''3''] \<and>
   unlock_indicator (sample_globals\<lparr>unlock_state := STATE_STARTED\<rparr>) \<and>
   f_output (draw_image sample_world (sample_globals\<lparr>unlock_state := STATE_STARTED\<rparr>)
     (1920, 1080)) = [] \<and>
   map fst (shown_texts (f_output (draw_image sample_world
     (sample_globals\<lparr>unlock_state := STATE_STARTED\<rparr>) (1920, 1080)))) = []"
proof -
  have t: "ring_texts sample_globals = [''3'']"
    by (simp add: ring_texts_def selected_text_def counter_text_def sample_globals_def
          format_d_def digits_3)
  have r: "map (\<lambda>l. (l_op l, l_path l))
      (ring_layers sample_world sample_globals (c_gstate (cairo_create [])))
     = [(Fill, [Arc 95 95 90 0 (2 * pi)]), (Stroke, [Arc 95 95 90 0 (2 * pi)]),
        (Stroke, [Arc 95 95 85 0 (2 * pi)])]"
    by (simp add: ring_layers_def Let_def)
  have s: "unlock_indicator sample_globals" "unlock_state sample_globals = STATE_KEY_PRESSED"
    "unlock_indicator (sample_globals\<lparr>unlock_state := STATE_STARTED\<rparr>)"
    "auth_state (sample_globals\<lparr>unlock_state := STATE_STARTED\<rparr>) = STATE_AUTH_IDLE"
    by (simp_all add: sample_globals_def)
  show ?thesis
    using ring_drawn_iff [of sample_globals sample_world "(1920, 1080)"]
      ring_drawn_iff [of "sample_globals\<lparr>unlock_state := STATE_STARTED\<rparr>" sample_world
        "(1920, 1080)"] t r s
    by simp
qed

subsection \<open>C3: the colour of the ring\<close>

text \<open>
  Claim C3. The colour of the ring is a total function of the authentication state, with
  the input state as a second key in the idle case only: when the indicator is drawn,
  the stroke of the ring has the colour of the table, which is blue for \<open>VERIFY\<close> and
  \<open>LOCK\<close>, red for \<open>WRONG\<close> and \<open>LOCK_FAILED\<close>, orange for \<open>IDLE\<close> with nothing to
  delete and gray otherwise. The four colours differ, and no state is painted with the
  colour left over from drawing the disk.
\<close>

theorem ring_color_total:
  assumes "indicator_shown g"
  shows "map_option (\<lambda>l. (l_op l, l_path l, gs_source (l_gstate l)))
           (ring_stroke (f_output (draw_image w g res)))
         = Some (Stroke, [Arc 95 95 90 0 (2 * pi)],
                 rgb_source (ring_color_table (auth_state g) (unlock_state g))) \<and>
         ring_color_table (auth_state g) (unlock_state g)
           \<in> {accent_blue, accent_red, accent_orange, neutral_gray} \<and>
         distinct [accent_blue, accent_red, accent_orange, neutral_gray, NORD nord1]"
proof -
  obtain ls where
    "f_output (draw_image w g res) = ring_layers w g (c_gstate (cairo_create [])) @ ls"
    using assms f_output_shown by blast
  then have "map_option (\<lambda>l. (l_op l, l_path l, gs_source (l_gstate l)))
           (ring_stroke (f_output (draw_image w g res)))
         = Some (Stroke, [Arc 95 95 90 0 (2 * pi)],
                 rgb_source (ring_color_table (auth_state g) (unlock_state g)))"
    by (simp add: ring_stroke_def ring_layers_def Let_def)
  moreover have "ring_color_table (auth_state g) (unlock_state g)
           \<in> {accent_blue, accent_red, accent_orange, neutral_gray}"
    by (cases "auth_state g") simp_all
  moreover have "distinct [accent_blue, accent_red, accent_orange, neutral_gray, NORD nord1]"
    by (simp add: accent_blue_def accent_red_def accent_orange_def neutral_gray_def NORD_def
          nord1_def nord3_def nord10_def nord11_def nord12_def)
  ultimately show ?thesis by blast
qed

theorem ring_color_total_witness:
  "indicator_shown (sample_globals\<lparr>auth_state := STATE_AUTH_WRONG\<rparr>) \<and>
   map_option (\<lambda>l. (l_op l, l_path l, gs_source (l_gstate l)))
     (ring_stroke (f_output (draw_image sample_world
        (sample_globals\<lparr>auth_state := STATE_AUTH_WRONG\<rparr>) (1920, 1080))))
   = Some (Stroke, [Arc 95 95 90 0 (2 * pi)], SourceRGB (191 / 255) (97 / 255) (106 / 255))"
proof -
  have shown: "indicator_shown (sample_globals\<lparr>auth_state := STATE_AUTH_WRONG\<rparr>)"
    by (simp add: indicator_shown_def sample_globals_def)
  show ?thesis
    using shown ring_color_total [OF shown, of sample_world "(1920, 1080)"]
    by (simp add: sample_globals_def accent_red_def NORD_def nord11_def rgb_source_def)
qed


subsection \<open>C2: the status text and its colour\<close>

text \<open>
  Claim C2, as amended. When the indicator is drawn, the status text is selected by this
  priority: the text of the authentication state, then the failed attempts (when they
  are displayed and there are some), then the empty-input text; without any of them no
  text is drawn. The text is light blue (\<open>nord9\<close>) for \<open>VERIFY\<close> and \<open>LOCK\<close>, red for
  \<open>WRONG\<close> and \<open>LOCK_FAILED\<close> while the input state is not nothing-to-delete, red for
  the failed attempts and orange for the empty-input text.
\<close>

theorem status_text_selection:
  assumes "indicator_shown g"
  shows "map fst (status_texts (f_output (draw_image w g res)))
           = (case selected_text g of None \<Rightarrow> [] | Some t \<Rightarrow> [t]) \<and>
         ((auth_state g = STATE_AUTH_WRONG \<or> auth_state g = STATE_I3LOCK_LOCK_FAILED
             \<longrightarrow> unlock_state g \<noteq> STATE_NOTHING_TO_DELETE) \<longrightarrow>
          map snd (status_texts (f_output (draw_image w g res)))
            = (case selected_text g of
                 None \<Rightarrow> []
               | Some t \<Rightarrow> [rgb_source (selected_text_color g)]))"
  using assms by (auto simp add: status_texts_expected status_color_eq split: option.splits)

theorem status_text_selection_witness:
  "indicator_shown (sample_globals\<lparr>unlock_state := STATE_NOTHING_TO_DELETE\<rparr>) \<and>
   map fst (status_texts (f_output (draw_image sample_world
      (sample_globals\<lparr>unlock_state := STATE_NOTHING_TO_DELETE\<rparr>) (1920, 1080)))) = [''3''] \<and>
   map snd (status_texts (f_output (draw_image sample_world
      (sample_globals\<lparr>unlock_state := STATE_NOTHING_TO_DELETE\<rparr>) (1920, 1080))))
     = [SourceRGB (191 / 255) (97 / 255) (106 / 255)]"
proof -
  have shown: "indicator_shown (sample_globals\<lparr>unlock_state := STATE_NOTHING_TO_DELETE\<rparr>)"
    by (simp add: sample_shown)
  show ?thesis
    using shown status_text_selection [OF shown, of sample_world "(1920, 1080)"]
    by (simp add: sample_globals_def selected_text_def selected_text_color_def
          counter_text_def format_d_def digits_3 accent_red_def NORD_def nord11_def
          rgb_source_def)
qed

text \<open>
  The claim as stated fails twice. With three failed attempts on display and the input
  state nothing-to-delete, the claim gives the text \<open>No input\<close> and the code shows the
  counter. While verifying, the claim gives the text the blue of the ring (\<open>nord10\<close>) and
  the code paints it in \<open>nord9\<close>.
\<close>

theorem status_text_claim_counterexample:
  "claimed_text (sample_globals\<lparr>unlock_state := STATE_NOTHING_TO_DELETE\<rparr>) = Some ''No input'' \<and>
   map fst (status_texts (f_output (draw_image sample_world
      (sample_globals\<lparr>unlock_state := STATE_NOTHING_TO_DELETE\<rparr>) (1920, 1080)))) = [''3''] \<and>
   claimed_text_color (sample_globals\<lparr>auth_state := STATE_AUTH_VERIFY\<rparr>) = accent_blue \<and>
   map snd (status_texts (f_output (draw_image sample_world
      (sample_globals\<lparr>auth_state := STATE_AUTH_VERIFY\<rparr>) (1920, 1080))))
     = [rgb_source (NORD nord9)] \<and>
   rgb_source (NORD nord9) \<noteq> rgb_source accent_blue"
  by (simp add: status_texts_expected status_color_eq indicator_shown_iff sample_globals_def
        claimed_text_def claimed_text_color_def selected_text_def selected_text_color_def
        counter_text_def format_d_def digits_3 accent_blue_def NORD_def nord9_def nord10_def
        rgb_source_def)

subsection \<open>C5: the display of the failed attempts\<close>




subsection \<open>C9: the counter fits the buffer\<close>

text \<open>
  Claim C9. In the branch that displays the failed attempts, with a counter from 1 to
  999, \<open>snprintf\<close> into the buffer of 4 bytes does not truncate: the text is the decimal
  representation of the counter, of at most 3 characters, which leaves room for the
  terminator.
\<close>

theorem counter_fits_buffer:
  assumes "auth_state g = STATE_AUTH_IDLE"
    and "show_failed_attempts g"
    and "1 \<le> failed_attempts g"
    and "failed_attempts g \<le> 999"
  shows "fst (text_switch g ctx) = Some (snprintf_d 4 (failed_attempts g)) \<and>
         snprintf_d 4 (failed_attempts g) = format_d (failed_attempts g) \<and>
         length (format_d (failed_attempts g)) + 1 \<le> 4 \<and>
         decimal_value (format_d (failed_attempts g)) = nat (failed_attempts g)"
proof -
  have "fst (text_switch g ctx) = Some (snprintf_d 4 (failed_attempts g))"
    using assms by (simp add: text_switch_def Let_def)
  moreover have "snprintf_d 4 (failed_attempts g) = format_d (failed_attempts g)"
    using assms by (simp add: snprintf_d_exact)
  moreover have "length (format_d (failed_attempts g)) + 1 \<le> 4"
    using assms length_format_d [of "failed_attempts g"] by simp
  moreover have "decimal_value (format_d (failed_attempts g)) = nat (failed_attempts g)"
    using assms by (simp add: decimal_value_format_d)
  ultimately show ?thesis by blast
qed

theorem counter_fits_buffer_witness:
  "auth_state sample_globals = STATE_AUTH_IDLE \<and> show_failed_attempts sample_globals \<and>
   1 \<le> failed_attempts sample_globals \<and> failed_attempts sample_globals \<le> 999 \<and>
   fst (text_switch sample_globals (cairo_create [])) = Some ''3'' \<and>
   snprintf_d 4 3 = ''3''"
  using counter_fits_buffer [of sample_globals "cairo_create []"]
  by (simp add: sample_globals_def format_d_def digits_3)


subsection \<open>C4: the frame is a function of its inputs\<close>

text \<open>
  Claim C4, as amended. Two calls of \<open>draw_image\<close> produce the same output when they
  have the same authentication state, input state, failed attempts, value of \<open>rand()\<close>,
  monitors, resolution and DPI, and also the same configuration (the flags, the
  modifiers, the fill colour, the image and whether it is tiled), font metrics and
  formatted time and date: the same layers on the two buffers and on the pixmap, the
  same pixels in the two buffers, and the same pixels on the pixmap when it held the
  same content before; where the fill of the background covers a pixel, what the
  pixmap held before does not matter either. The input position and the id of the
  pixmap are not read. This holds for every rasteriser.
\<close>

theorem frame_determined_by_inputs:
  assumes "same_inputs w1 g1 w2 g2"
  shows "draw_image w1 g1 res = draw_image w2 g2 res \<and>
         frame_surfaces coverage w1 g1 (draw_image w1 g1 res)
           = frame_surfaces coverage w2 g2 (draw_image w2 g2 res) \<and>
         pixmap_image coverage w1 g1 prev (draw_image w1 g1 res)
           = pixmap_image coverage w2 g2 prev (draw_image w2 g2 res) \<and>
         (coverage (background_fill g1 res) p = 1 \<longrightarrow>
            pixmap_image coverage w1 g1 prev1 (draw_image w1 g1 res) p
              = pixmap_image coverage w2 g2 prev2 (draw_image w2 g2 res) p)"
proof -
  from assms have e:
    "auth_state g1 = auth_state g2" "unlock_state g1 = unlock_state g2"
    "failed_attempts g1 = failed_attempts g2" "w_rand w1 = w_rand w2"
    "xr_screens g1 = xr_screens g2" "xr_resolutions g1 = xr_resolutions g2"
    "last_resolution g1 = last_resolution g2" "w_dpi_value w1 = w_dpi_value w2"
    "unlock_indicator g1 = unlock_indicator g2" "clock_visible g1 = clock_visible g2"
    "show_failed_attempts g1 = show_failed_attempts g2"
    "modifier_string g1 = modifier_string g2" "img g1 = img g2" "tile g1 = tile g2"
    "strgroups g1 0 = strgroups g2 0" "strgroups g1 1 = strgroups g2 1"
    "strgroups g1 2 = strgroups g2 2" "w_font w1 = w_font w2"
    "strftime w1 8 ''%H:%M'' (w_localtime w1) = strftime w2 8 ''%H:%M'' (w_localtime w2)"
    "strftime w1 32 ''%a, %B %d'' (w_localtime w1)
       = strftime w2 32 ''%a, %B %d'' (w_localtime w2)"
    by (simp_all add: same_inputs_def same_listed_inputs_def)
  have i: "draw_indicator w1 g1 c = draw_indicator w2 g2 c" for c
    unfolding draw_indicator_def indicator_shown_def
      draw_ring_def ring_color_switch_def draw_text_def text_color_switch_def
      text_color_default_def text_switch_def show_centered_def draw_highlight_def
      highlight_start_def scaling_factor_def e
    by (rule refl)
  have k: "draw_clock w1 g1 c = draw_clock w2 g2 c" for c
    unfolding draw_clock_def Let_def scaling_factor_def e
    by (rule refl)
  have b: "draw_background g1 res c = draw_background g2 res c" for c
    unfolding draw_background_def rgb16_def e
    by (rule refl)
  have m: "composite w1 g1 c = composite w2 g2 c" for c
    unfolding composite_def composite_at_def
      indicator_position_def clock_position_def fallback_indicator_position_def
      fallback_clock_position_def button_diameter_physical_def clock_width_physical_def
      clock_height_physical_def margin_physical_def scaling_factor_def e
    by (rule refl)
  have d: "draw_image w1 g1 res = draw_image w2 g2 res"
    by (simp add: draw_image_def i k b m)
  have s: "frame_surfaces coverage w1 g1 F = frame_surfaces coverage w2 g2 F" for F
    unfolding frame_surfaces_def button_diameter_physical_def clock_width_physical_def
      clock_height_physical_def scaling_factor_def e
    by (rule refl)
  have x: "pixmap_image coverage w1 g1 prev' F = pixmap_image coverage w2 g2 prev' F"
    for prev' F
    unfolding pixmap_image_def s by (rule refl)
  have bf: "background_fill g1 res = background_fill g2 res"
    unfolding background_fill_def rgb16_def e by (rule refl)
  have o: "pixmap_image coverage w1 g1 prev1 (draw_image w1 g1 res) p
      = pixmap_image coverage w2 g2 prev2 (draw_image w2 g2 res) p"
    if c: "coverage (background_fill g1 res) p = 1"
  proof -
    have "pixmap_image coverage w1 g1 prev1 (draw_image w1 g1 res) p
        = pixmap_image coverage w1 g1 prev2 (draw_image w1 g1 res) p"
      using c by (rule pixmap_image_opaque)
    then show ?thesis
      by (simp only: x d)
  qed
  show ?thesis
    using d s x o by simp
qed

theorem frame_determined_by_inputs_witness:
  "same_inputs sample_world sample_globals
     (sample_world\<lparr>w_indeterminate := ''?''\<rparr>)
     (sample_globals\<lparr>input_position := 0, bg_pixmap := 8\<rparr>) \<and>
   sample_coverage (background_fill sample_globals (1920, 1080)) (900, 500) = 1 \<and>
   draw_image sample_world sample_globals (1920, 1080)
     = draw_image (sample_world\<lparr>w_indeterminate := ''?''\<rparr>)
         (sample_globals\<lparr>input_position := 0, bg_pixmap := 8\<rparr>) (1920, 1080) \<and>
   pixmap_image sample_coverage sample_world sample_globals (\<lambda>q. transparent)
       (draw_image sample_world sample_globals (1920, 1080)) (900, 500)
     = pixmap_image sample_coverage (sample_world\<lparr>w_indeterminate := ''?''\<rparr>)
         (sample_globals\<lparr>input_position := 0, bg_pixmap := 8\<rparr>) (\<lambda>q. (1, 0, 0, 1))
         (draw_image (sample_world\<lparr>w_indeterminate := ''?''\<rparr>)
            (sample_globals\<lparr>input_position := 0, bg_pixmap := 8\<rparr>) (1920, 1080)) (900, 500)"
proof -
  have s: "same_inputs sample_world sample_globals
     (sample_world\<lparr>w_indeterminate := ''?''\<rparr>)
     (sample_globals\<lparr>input_position := 0, bg_pixmap := 8\<rparr>)"
    by (simp add: same_inputs_def same_listed_inputs_def strgroups_def color_at_def
          strftime_def sample_world_def sample_strftime_def pad2_def format_d_def
          sample_digits)
  have c: "sample_coverage (background_fill sample_globals (1920, 1080)) (900, 500) = 1"
    by (simp add: sample_coverage_def)
  show ?thesis
    using s c frame_determined_by_inputs [OF s, of "(1920, 1080)" sample_coverage
        "\<lambda>q. transparent" "(900, 500)" "\<lambda>q. transparent" "\<lambda>q. (1, 0, 0, 1)"]
    by blast
qed

text \<open>
  The claim as stated lists the states, the counters, the random seed, the geometry and
  the scale, and not the time. Two calls that agree on all of these, and on everything
  else but the minute, paint different clocks.
\<close>

theorem frame_depends_on_time_counterexample:
  "same_listed_inputs sample_world sample_globals
     (sample_world\<lparr>w_localtime := (w_localtime sample_world)\<lparr>tm_min := 31\<rparr>\<rparr>)
     sample_globals \<and>
   map fst (shown_texts (f_clock_output (draw_image sample_world sample_globals (1920, 1080))))
     = [''09:30'', ''Day, Month 05''] \<and>
   map fst (shown_texts (f_clock_output (draw_image
       (sample_world\<lparr>w_localtime := (w_localtime sample_world)\<lparr>tm_min := 31\<rparr>\<rparr>)
       sample_globals (1920, 1080))))
     = [''09:31'', ''Day, Month 05''] \<and>
   draw_image sample_world sample_globals (1920, 1080)
     \<noteq> draw_image (sample_world\<lparr>w_localtime := (w_localtime sample_world)\<lparr>tm_min := 31\<rparr>\<rparr>)
         sample_globals (1920, 1080)"
proof -
  have v: "clock_visible sample_globals"
    by (simp add: sample_globals_def)
  have l: "w_localtime (sample_world\<lparr>w_localtime := (w_localtime sample_world)\<lparr>tm_min := 31\<rparr>\<rparr>)
      = (w_localtime sample_world)\<lparr>tm_min := 31\<rparr>"
    by simp
  have t1: "map fst (shown_texts (f_clock_output
        (draw_image sample_world sample_globals (1920, 1080))))
     = [''09:30'', ''Day, Month 05'']"
    by (simp add: f_clock_output_draw_image draw_clock_texts [OF v] sample_time_texts)
  have t2: "map fst (shown_texts (f_clock_output (draw_image
       (sample_world\<lparr>w_localtime := (w_localtime sample_world)\<lparr>tm_min := 31\<rparr>\<rparr>)
       sample_globals (1920, 1080))))
     = [''09:31'', ''Day, Month 05'']"
    by (simp only: f_clock_output_draw_image draw_clock_texts [OF v] l sample_time_texts)
       simp
  have "draw_image sample_world sample_globals (1920, 1080)
     \<noteq> draw_image (sample_world\<lparr>w_localtime := (w_localtime sample_world)\<lparr>tm_min := 31\<rparr>\<rparr>)
         sample_globals (1920, 1080)"
    using t1 t2 by auto
  moreover have "same_listed_inputs sample_world sample_globals
     (sample_world\<lparr>w_localtime := (w_localtime sample_world)\<lparr>tm_min := 31\<rparr>\<rparr>)
     sample_globals"
    by (simp add: same_listed_inputs_def)
  ultimately show ?thesis
    using t1 t2 by blast
qed


subsection \<open>C6: the highlight\<close>

text \<open>
  Claim C6. When the input state is \<open>STATE_KEY_ACTIVE\<close> or \<open>STATE_BACKSPACE_ACTIVE\<close> and
  the indicator is drawn, the last three strokes on the buffer are the highlight and its
  two separators: an arc on the ring that spans 60 degrees from a start angle in
  \<open>[0, 2 pi)\<close>, whatever \<open>rand()\<close> returns, in \<open>nord7\<close> (the green of the code) for a key
  and in red for backspace, and at each end of it an arc of \<open>pi / 128\<close> in the dark
  \<open>nord0\<close>.
\<close>

theorem highlight_arc:
  assumes "indicator_shown g"
    and "unlock_state g = STATE_KEY_ACTIVE \<or> unlock_state g = STATE_BACKSPACE_ACTIVE"
  shows "drop 2 (strokes (f_output (draw_image w g res))) =
           [(rgb_source (if unlock_state g = STATE_KEY_ACTIVE then NORD nord7 else accent_red),
             10, [Arc 95 95 90 (highlight_start w) (highlight_start w + pi / 3)]),
            (rgb_source (NORD nord0), 10,
             [Arc 95 95 90 (highlight_start w) (highlight_start w + pi / 128)]),
            (rgb_source (NORD nord0), 10,
             [Arc 95 95 90 (highlight_start w + pi / 3 - pi / 128)
                (highlight_start w + pi / 3)])] \<and>
         0 \<le> highlight_start w \<and> highlight_start w < 2 * pi \<and>
         degrees ((highlight_start w + pi / 3) - highlight_start w) = 60"
  using assms highlight_start_range [of w]
  by (simp add: draw_image_strokes degrees_def accent_red_def)

theorem highlight_arc_witness:
  "indicator_shown (sample_globals\<lparr>unlock_state := STATE_KEY_ACTIVE\<rparr>) \<and>
   highlight_start sample_world = 372 / 100 \<and>
   drop 2 (strokes (f_output (draw_image sample_world
      (sample_globals\<lparr>unlock_state := STATE_KEY_ACTIVE\<rparr>) (1920, 1080)))) =
     [(SourceRGB (143 / 255) (188 / 255) (187 / 255), 10,
       [Arc 95 95 90 (372 / 100) (372 / 100 + pi / 3)]),
      (SourceRGB (46 / 255) (52 / 255) (64 / 255), 10,
       [Arc 95 95 90 (372 / 100) (372 / 100 + pi / 128)]),
      (SourceRGB (46 / 255) (52 / 255) (64 / 255), 10,
       [Arc 95 95 90 (372 / 100 + pi / 3 - pi / 128) (372 / 100 + pi / 3)])]"
proof -
  have shown: "indicator_shown (sample_globals\<lparr>unlock_state := STATE_KEY_ACTIVE\<rparr>)"
    by (simp add: sample_shown)
  have start: "highlight_start sample_world = 372 / 100"
    by (simp add: highlight_start_eq sample_world_def)
  show ?thesis
    using shown start highlight_arc [OF shown, of sample_world "(1920, 1080)"]
    by (simp add: sample_globals_def NORD_def nord7_def nord0_def rgb_source_def)
qed


subsection \<open>C7: the placement on the monitors\<close>

text \<open>
  Claim C7. For every list of monitor rectangles the pixmap receives, for each rectangle
  in turn, the indicator buffer and then the clock buffer, and nothing else from a
  buffer. The centre of the indicator buffer is within one pixel of the centre of the
  rectangle, and the bottom right corner of the clock buffer is the margin away from
  the bottom right corner of the rectangle. Without monitors the same holds for the one
  rectangle that covers the resolution. The sizes of the buffers are the ones the code
  computes, rounded as doubles are. The hypotheses say that \<open>xr_screens\<close> is the
  length of the list, that the sizes are not negative (the C fields are unsigned), and
  that the DPI and the resolution are small enough for the C ints not to overflow.
\<close>

theorem monitor_placement:
  assumes "xr_screens g = int (length (xr_resolutions g))"
    and "\<forall>r \<in> set (xr_resolutions g). 0 \<le> rect_width r \<and> 0 \<le> rect_height r"
    and "0 \<le> w_dpi_value w" and "w_dpi_value w < 2 ^ 16"
    and "uint (fst (last_resolution g)) < 2 ^ 31"
    and "uint (snd (last_resolution g)) < 2 ^ 31"
  shows "blits (f_xcb_output (draw_image w g res))
           = concat (map (\<lambda>r. blit_pair w (placement w g r)) (monitors g)) \<and>
         (\<forall>r \<in> set (monitors g).
            centred w r (fst (placement w g r)) \<and> inset w r (snd (placement w g r)))"
proof -
  have places: "centred w r (fst (placement w g r)) \<and> inset w r (snd (placement w g r))"
    if "r \<in> set (monitors g)" for r
  proof (cases "xr_screens g > 0")
    case True
    with that have "r \<in> set (xr_resolutions g)"
      by (simp add: monitors_def)
    with assms(2) have "0 \<le> rect_width r" "0 \<le> rect_height r"
      by simp_all
    with True assms(3,4) show ?thesis
      by (simp add: placement_def indicator_position_centred clock_position_inset)
  next
    case False
    with that have "r = \<lparr>rect_x = 0, rect_y = 0, rect_width = uint (fst (last_resolution g)),
                          rect_height = uint (snd (last_resolution g))\<rparr>"
      by (simp add: monitors_def)
    with False show ?thesis
      using fallback_centred [OF assms(3,4), of g] fallback_inset [OF assms(3,4,5,6)]
      by (simp add: placement_def)
  qed
  show ?thesis
    using draw_image_blits [OF assms(1)] places by blast
qed

theorem monitor_placement_witness:
  "xr_screens sample_globals = int (length (xr_resolutions sample_globals)) \<and>
   0 \<le> w_dpi_value (sample_world\<lparr>w_dpi_value := 100\<rparr>) \<and>
   w_dpi_value (sample_world\<lparr>w_dpi_value := 100\<rparr>) < 2 ^ 16 \<and>
   blits (f_xcb_output (draw_image (sample_world\<lparr>w_dpi_value := 100\<rparr>) sample_globals
      (1920, 1080)))
     = [(OUTPUT, 861, 441, [Rectangle 861 441 198 198]),
        (CLOCK_OUTPUT, 1644, 967, [Rectangle 1644 967 251 88]),
        (OUTPUT, 2461, 413, [Rectangle 2461 413 198 198]),
        (CLOCK_OUTPUT, 2925, 911, [Rectangle 2925 911 251 88])] \<and>
   centred (sample_world\<lparr>w_dpi_value := 100\<rparr>) (xr_resolutions sample_globals ! 1) (2461, 413) \<and>
   inset (sample_world\<lparr>w_dpi_value := 100\<rparr>) (xr_resolutions sample_globals ! 1) (2925, 911)"
proof -
  have "\<forall>r \<in> set (xr_resolutions sample_globals). 0 \<le> rect_width r \<and> 0 \<le> rect_height r"
    by (simp add: sample_globals_def)
  moreover have "uint (fst (last_resolution sample_globals)) < 2 ^ 31"
    "uint (snd (last_resolution sample_globals)) < 2 ^ 31"
    by (simp_all add: sample_globals_def)
  moreover have "xr_screens sample_globals = int (length (xr_resolutions sample_globals))"
    "0 \<le> w_dpi_value (sample_world\<lparr>w_dpi_value := 100\<rparr>)"
    "w_dpi_value (sample_world\<lparr>w_dpi_value := 100\<rparr>) < 2 ^ 16"
    by (simp_all add: sample_globals_def)
  ultimately show ?thesis
    using monitor_placement [of sample_globals "sample_world\<lparr>w_dpi_value := 100\<rparr>"
        "(1920, 1080)"]
    by (simp add: sample_globals_def monitors_def placement_def blit_pair_def sample_sizes_100
          indicator_position_def clock_position_def c_div_def)
qed


subsection \<open>C8: the background pixmap is kept across redraws\<close>

text \<open>
  Claim C8. \<open>free_bg_pixmap\<close> leaves \<open>bg_pixmap\<close> at \<open>XCB_NONE\<close>. A redraw that finds
  \<open>XCB_NONE\<close> allocates one pixmap, of the size of the resolution at that moment, and
  keeps its id. A redraw that finds a pixmap keeps the id, allocates nothing and adds
  its painting to what the pixmap holds. Hence over any sequence of redraws, clearings
  of the indicator and changes of the other variables without \<open>free_bg_pixmap\<close>, the
  pixmap stays the same and nothing is allocated.
\<close>

theorem bg_pixmap_cached:
  "bg_pixmap (fst (free_bg_pixmap s)) = XCB_NONE \<and>
   (bg_pixmap g = XCB_NONE \<longrightarrow>
      bg_pixmap (fst (redraw_screen w (g, xs))) = Suc (x_generated xs) \<and>
      bg_pixmap (fst (redraw_screen w (g, xs))) \<noteq> XCB_NONE \<and>
      x_generated (snd (redraw_screen w (g, xs))) = Suc (x_generated xs) \<and>
      map_option px_size
        (x_pixmaps (snd (redraw_screen w (g, xs))) (bg_pixmap (fst (redraw_screen w (g, xs)))))
        = Some (last_resolution g)) \<and>
   (bg_pixmap g \<noteq> XCB_NONE \<longrightarrow>
      bg_pixmap (fst (redraw_screen w (g, xs))) = bg_pixmap g \<and>
      x_generated (snd (redraw_screen w (g, xs))) = x_generated xs \<and>
      (\<forall>p. x_pixmaps xs (bg_pixmap g) = Some p \<longrightarrow>
         x_pixmaps (snd (redraw_screen w (g, xs))) (bg_pixmap g)
           = Some (p\<lparr>px_content := px_content p
                      @ f_xcb_output (draw_image w g (last_resolution g))\<rparr>))) \<and>
   (FreeBgPixmap \<notin> set es \<and> bg_pixmap (fst s) \<noteq> XCB_NONE \<longrightarrow>
      bg_pixmap (fst (run es s)) = bg_pixmap (fst s) \<and>
      x_generated (snd (run es s)) = x_generated (snd s))"
proof -
  have free: "bg_pixmap (fst (free_bg_pixmap s)) = XCB_NONE"
    by (cases s) (simp add: free_bg_pixmap_def)
  have alloc: "bg_pixmap (fst (redraw_screen w (g, xs))) = Suc (x_generated xs) \<and>
      bg_pixmap (fst (redraw_screen w (g, xs))) \<noteq> XCB_NONE \<and>
      x_generated (snd (redraw_screen w (g, xs))) = Suc (x_generated xs) \<and>
      map_option px_size
        (x_pixmaps (snd (redraw_screen w (g, xs))) (bg_pixmap (fst (redraw_screen w (g, xs)))))
        = Some (last_resolution g)"
    if "bg_pixmap g = XCB_NONE"
    using redraw_screen_allocate [OF that, of w xs] by (simp add: XCB_NONE_def)
  have reuse: "bg_pixmap (fst (redraw_screen w (g, xs))) = bg_pixmap g \<and>
      x_generated (snd (redraw_screen w (g, xs))) = x_generated xs \<and>
      (\<forall>p. x_pixmaps xs (bg_pixmap g) = Some p \<longrightarrow>
         x_pixmaps (snd (redraw_screen w (g, xs))) (bg_pixmap g)
           = Some (p\<lparr>px_content := px_content p
                      @ f_xcb_output (draw_image w g (last_resolution g))\<rparr>))"
    if "bg_pixmap g \<noteq> XCB_NONE"
    using redraw_screen_reuse [OF that, of w xs] by (simp add: paint_pixmap_def)
  have seq: "bg_pixmap (fst (run es s)) = bg_pixmap (fst s) \<and>
      x_generated (snd (run es s)) = x_generated (snd s)"
    if "FreeBgPixmap \<notin> set es \<and> bg_pixmap (fst s) \<noteq> XCB_NONE"
    using that run_keeps_pixmap by blast
  show ?thesis
    using free alloc reuse seq by blast
qed

theorem bg_pixmap_cached_witness:
  "bg_pixmap sample_globals = XCB_NONE \<and>
   bg_pixmap (fst (redraw_screen sample_world (sample_globals, sample_xserver))) = 8 \<and>
   map_option px_size (x_pixmaps (snd (redraw_screen sample_world
      (sample_globals, sample_xserver))) 8) = Some (1920, 1080) \<and>
   FreeBgPixmap \<notin> set [Redraw sample_world, External (\<lambda>g. g\<lparr>failed_attempts := 4\<rparr>),
      ClearIndicator sample_world] \<and>
   bg_pixmap (fst (run [Redraw sample_world, External (\<lambda>g. g\<lparr>failed_attempts := 4\<rparr>),
      ClearIndicator sample_world]
      (redraw_screen sample_world (sample_globals, sample_xserver)))) = 8 \<and>
   x_generated (snd (run [Redraw sample_world, External (\<lambda>g. g\<lparr>failed_attempts := 4\<rparr>),
      ClearIndicator sample_world]
      (redraw_screen sample_world (sample_globals, sample_xserver)))) = 8 \<and>
   bg_pixmap (fst (free_bg_pixmap (redraw_screen sample_world
      (sample_globals, sample_xserver)))) = XCB_NONE"
proof -
  have none: "bg_pixmap sample_globals = XCB_NONE"
    by (simp add: sample_globals_def XCB_NONE_def)
  have gen: "x_generated sample_xserver = 7"
    by (simp add: sample_xserver_def)
  have res: "last_resolution sample_globals = (1920, 1080)"
    by (simp add: sample_globals_def)
  note c = bg_pixmap_cached [of "(sample_globals, sample_xserver)" sample_globals sample_world
        sample_xserver "[]"]
  have id: "bg_pixmap (fst (redraw_screen sample_world (sample_globals, sample_xserver))) = 8"
    using none gen c by simp
  have first: "x_generated (snd (redraw_screen sample_world (sample_globals, sample_xserver))) = 8"
    "map_option px_size (x_pixmaps (snd (redraw_screen sample_world
      (sample_globals, sample_xserver))) 8) = Some (1920, 1080)"
    using none gen res c by (simp_all add: id)
  show ?thesis
    using none id first
      bg_pixmap_cached [of "redraw_screen sample_world (sample_globals, sample_xserver)"
        sample_globals sample_world sample_xserver
        "[Redraw sample_world, External (\<lambda>g. g\<lparr>failed_attempts := 4\<rparr>),
          ClearIndicator sample_world]"]
    by (simp add: XCB_NONE_def)
qed


subsection \<open>C10: the flags decide what is drawn, not what is composed\<close>

text \<open>
  Claim C10. In every state the pixmap receives both buffers on every monitor
  rectangle, at the sizes the code computes. When the indicator is not shown nothing
  is painted on its buffer, which is transparent at every pixel, and every pixel of the
  pixmap is what it would be without the layers painted from that buffer; the same
  holds for the clock buffer when the clock is disabled. When both are hidden, every
  pixel of the pixmap is the pixel of the background alone. This holds for every
  rasteriser and whatever the pixmap held before. The hypotheses say that
  \<open>xr_screens\<close> is the length of the list of monitors and that the DPI is in the range
  where the C ints hold the sizes.
\<close>

theorem flags_guard_content_only:
  assumes "xr_screens g = int (length (xr_resolutions g))"
    and "0 \<le> w_dpi_value w" and "w_dpi_value w < 2 ^ 16"
  shows "blits (f_xcb_output (draw_image w g res))
           = concat (map (\<lambda>r. blit_pair w (placement w g r)) (monitors g)) \<and>
         (\<not> indicator_shown g \<longrightarrow>
            f_output (draw_image w g res) = [] \<and>
            img_data (frame_surfaces coverage w g (draw_image w g res) OUTPUT) q
              = transparent \<and>
            pixmap_image coverage w g prev (draw_image w g res) p
              = render coverage (frame_surfaces coverage w g (draw_image w g res)) prev
                  (filter (\<lambda>l. \<not> painted_from OUTPUT l) (f_xcb_output (draw_image w g res))) p) \<and>
         (\<not> clock_visible g \<longrightarrow>
            f_clock_output (draw_image w g res) = [] \<and>
            img_data (frame_surfaces coverage w g (draw_image w g res) CLOCK_OUTPUT) q
              = transparent \<and>
            pixmap_image coverage w g prev (draw_image w g res) p
              = render coverage (frame_surfaces coverage w g (draw_image w g res)) prev
                  (filter (\<lambda>l. \<not> painted_from CLOCK_OUTPUT l)
                     (f_xcb_output (draw_image w g res))) p) \<and>
         (\<not> indicator_shown g \<and> \<not> clock_visible g \<longrightarrow>
            pixmap_image coverage w g prev (draw_image w g res) p
              = render coverage (frame_surfaces coverage w g (draw_image w g res)) prev
                  (c_target (draw_background g res (cairo_create []))) p)"
proof -
  let ?F = "draw_image w g res"
  let ?surf = "frame_surfaces coverage w g ?F"
  have indicator: "f_output ?F = [] \<and>
      img_data (?surf OUTPUT) q = transparent \<and>
      pixmap_image coverage w g prev ?F p
        = render coverage ?surf prev (filter (\<lambda>l. \<not> painted_from OUTPUT l) (f_xcb_output ?F)) p"
    if "\<not> indicator_shown g"
  proof -
    have empty: "f_output ?F = []"
      using that by (rule f_output_hidden)
    then have buf: "?surf OUTPUT = buffer_image coverage (button_diameter_physical w)
        (button_diameter_physical w) []"
      by (simp add: frame_surfaces_def)
    then have clear: "img_data (?surf OUTPUT) q = transparent"
      by (simp add: buffer_image_def render_Nil)
    from buf have "\<forall>l \<in> set (f_xcb_output ?F).
        painted_from OUTPUT l \<longrightarrow> layer_pixel coverage ?surf l p = transparent"
      using layer_from_empty_buffer by blast
    then show ?thesis
      using empty clear unfolding pixmap_image_def by (simp add: render_without [symmetric])
  qed
  have clock: "f_clock_output ?F = [] \<and>
      img_data (?surf CLOCK_OUTPUT) q = transparent \<and>
      pixmap_image coverage w g prev ?F p
        = render coverage ?surf prev
            (filter (\<lambda>l. \<not> painted_from CLOCK_OUTPUT l) (f_xcb_output ?F)) p"
    if "\<not> clock_visible g"
  proof -
    have empty: "f_clock_output ?F = []"
      using that by (rule f_clock_output_hidden)
    then have buf: "?surf CLOCK_OUTPUT = buffer_image coverage (clock_width_physical w)
        (clock_height_physical w) []"
      by (simp add: frame_surfaces_def)
    then have clear: "img_data (?surf CLOCK_OUTPUT) q = transparent"
      by (simp add: buffer_image_def render_Nil)
    from buf have "\<forall>l \<in> set (f_xcb_output ?F).
        painted_from CLOCK_OUTPUT l \<longrightarrow> layer_pixel coverage ?surf l p = transparent"
      using layer_from_empty_buffer by blast
    then show ?thesis
      using empty clear unfolding pixmap_image_def by (simp add: render_without [symmetric])
  qed
  have both: "pixmap_image coverage w g prev ?F p
        = render coverage ?surf prev (c_target (draw_background g res (cairo_create []))) p"
    if "\<not> indicator_shown g" and "\<not> clock_visible g"
  proof -
    obtain ls where ls:
      "f_xcb_output ?F = c_target (draw_background g res (cairo_create [])) @ ls"
      "\<forall>l \<in> set ls. painted_from OUTPUT l \<or> painted_from CLOCK_OUTPUT l"
      using f_xcb_output_draw_image by blast
    have "f_output ?F = []"
      using that(1) by (rule f_output_hidden)
    then have o: "?surf OUTPUT = buffer_image coverage (button_diameter_physical w)
        (button_diameter_physical w) []"
      by (simp add: frame_surfaces_def)
    have "f_clock_output ?F = []"
      using that(2) by (rule f_clock_output_hidden)
    then have c: "?surf CLOCK_OUTPUT = buffer_image coverage (clock_width_physical w)
        (clock_height_physical w) []"
      by (simp add: frame_surfaces_def)
    have "layer_pixel coverage ?surf l p = transparent" if "l \<in> set ls" for l
    proof (cases "painted_from OUTPUT l")
      case True
      then show ?thesis using o by (rule layer_from_empty_buffer)
    next
      case False
      then have "painted_from CLOCK_OUTPUT l"
        using ls(2) that by blast
      then show ?thesis using c by (rule layer_from_empty_buffer)
    qed
    then have "\<forall>l \<in> set ls. layer_pixel coverage ?surf l p = transparent"
      by blast
    then show ?thesis
      unfolding pixmap_image_def ls(1) by (rule render_append_transparent)
  qed
  show ?thesis
    using draw_image_blits [OF assms(1)] indicator clock both by blast
qed


theorem flags_guard_content_only_witness:
  "xr_screens sample_hidden = int (length (xr_resolutions sample_hidden)) \<and>
   0 \<le> w_dpi_value sample_world \<and> w_dpi_value sample_world < 2 ^ 16 \<and>
   \<not> indicator_shown sample_hidden \<and> \<not> clock_visible sample_hidden \<and>
   f_output (draw_image sample_world sample_hidden (1920, 1080)) = [] \<and>
   f_clock_output (draw_image sample_world sample_hidden (1920, 1080)) = [] \<and>
   img_data (frame_surfaces sample_coverage sample_world sample_hidden
     (draw_image sample_world sample_hidden (1920, 1080)) OUTPUT) (35, 55) = transparent \<and>
   blits (f_xcb_output (draw_image sample_world sample_hidden (1920, 1080)))
     = [(OUTPUT, 865, 445, [Rectangle 865 445 190 190]),
        (CLOCK_OUTPUT, 1656, 972, [Rectangle 1656 972 240 84]),
        (OUTPUT, 2465, 417, [Rectangle 2465 417 190 190]),
        (CLOCK_OUTPUT, 2937, 916, [Rectangle 2937 916 240 84])] \<and>
   pixmap_image sample_coverage sample_world sample_hidden (\<lambda>p. (1, 0, 0, 1))
     (draw_image sample_world sample_hidden (1920, 1080)) (900, 500) = (1, 1, 1, 1) \<and>
   render sample_coverage
       (frame_surfaces sample_coverage sample_world sample_hidden
          (draw_image sample_world sample_hidden (1920, 1080)))
       (\<lambda>p. (1, 0, 0, 1))
       (filter (\<lambda>l. \<not> painted_from OUTPUT l)
          (f_xcb_output (draw_image sample_world sample_hidden (1920, 1080)))) (900, 500)
     = (1, 1, 1, 1)"
proof -
  have n: "xr_screens sample_hidden = int (length (xr_resolutions sample_hidden))"
    by (simp add: sample_hidden_def sample_globals_def)
  have h: "\<not> indicator_shown sample_hidden" "\<not> clock_visible sample_hidden"
    by (simp_all add: sample_hidden_def sample_globals_def indicator_shown_iff)
  have m: "monitors sample_hidden
      = [\<lparr>rect_x = 0, rect_y = 0, rect_width = 1920, rect_height = 1080\<rparr>,
         \<lparr>rect_x = 1920, rect_y = 0, rect_width = 1281, rect_height = 1024\<rparr>]"
    by (simp add: monitors_def sample_hidden_def sample_globals_def)
  have x: "0 < xr_screens sample_hidden"
    by (simp add: sample_hidden_def sample_globals_def)
  have b: "render sample_coverage surf (\<lambda>p. (1, 0, 0, 1))
      (c_target (draw_background sample_hidden (1920, 1080) (cairo_create []))) (900, 500)
     = (1, 1, 1, 1)" for surf
    by (simp add: sample_background render_def layer_pixel_def source_pixel_def
          sample_coverage_def scale_rgba_def over_def)
  have d: "0 \<le> w_dpi_value sample_world" "w_dpi_value sample_world < 2 ^ 16"
    by (simp_all add: sample_world_def)
  note t = flags_guard_content_only [OF n d, of "(1920, 1080)" sample_coverage "(35, 55)"
      "\<lambda>p. (1, 0, 0, 1)" "(900, 500)"]
  have l: "blits (f_xcb_output (draw_image sample_world sample_hidden (1920, 1080)))
     = [(OUTPUT, 865, 445, [Rectangle 865 445 190 190]),
        (CLOCK_OUTPUT, 1656, 972, [Rectangle 1656 972 240 84]),
        (OUTPUT, 2465, 417, [Rectangle 2465 417 190 190]),
        (CLOCK_OUTPUT, 2937, 916, [Rectangle 2937 916 240 84])]"
    using t x
    by (simp add: m blit_pair_def placement_def sample_sizes indicator_position_def
          clock_position_def c_div_def)
  have e: "f_output (draw_image sample_world sample_hidden (1920, 1080)) = []"
    "f_clock_output (draw_image sample_world sample_hidden (1920, 1080)) = []"
    "img_data (frame_surfaces sample_coverage sample_world sample_hidden
       (draw_image sample_world sample_hidden (1920, 1080)) OUTPUT) (35, 55) = transparent"
    "pixmap_image sample_coverage sample_world sample_hidden (\<lambda>p. (1, 0, 0, 1))
       (draw_image sample_world sample_hidden (1920, 1080)) (900, 500)
     = render sample_coverage
         (frame_surfaces sample_coverage sample_world sample_hidden
            (draw_image sample_world sample_hidden (1920, 1080)))
         (\<lambda>p. (1, 0, 0, 1))
         (filter (\<lambda>l. \<not> painted_from OUTPUT l)
            (f_xcb_output (draw_image sample_world sample_hidden (1920, 1080)))) (900, 500)"
    using t h by blast+
  have p: "pixmap_image sample_coverage sample_world sample_hidden (\<lambda>p. (1, 0, 0, 1))
     (draw_image sample_world sample_hidden (1920, 1080)) (900, 500) = (1, 1, 1, 1)"
  proof -
    from t h have "pixmap_image sample_coverage sample_world sample_hidden (\<lambda>p. (1, 0, 0, 1))
       (draw_image sample_world sample_hidden (1920, 1080)) (900, 500)
     = render sample_coverage
         (frame_surfaces sample_coverage sample_world sample_hidden
            (draw_image sample_world sample_hidden (1920, 1080)))
         (\<lambda>p. (1, 0, 0, 1))
         (c_target (draw_background sample_hidden (1920, 1080) (cairo_create []))) (900, 500)"
      by blast
    then show ?thesis
      by (simp only: b)
  qed
  show ?thesis
    using n d h l e(1,2,3) p e(4) [symmetric] by (simp only: p simp_thms)
qed


end
